theory Spec2Isabelle
  imports Main "HOL-Library.Sublist"
begin

section \<open>Go strings and formatting\<close>

text \<open>
  A Go string is a byte sequence: \<open>string\<close> (a \<open>char list\<close>) here. An \<open>error\<close> value is
  modelled by its \<open>Error()\<close> text; \<open>fmt.Errorf("prefix: %w", err)\<close> is then the prefix followed
  by the text of \<open>err\<close>.
\<close>

definition digit_char :: "nat \<Rightarrow> char" where
  "digit_char d = ''0123456789'' ! d"

function string_of_nat :: "nat \<Rightarrow> string" where
  "string_of_nat n =
     (if n < 10 then [digit_char n] else string_of_nat (n div 10) @ [digit_char (n mod 10)])"
  by pat_completeness auto
termination
  by (relation "measure id") auto

declare string_of_nat.simps [simp del]

text \<open>The verb \<open>%d\<close> of \<open>fmt\<close> on an \<open>int\<close>: decimal, with a minus sign when negative.\<close>

definition Sprintf_d :: "int \<Rightarrow> string" where
  "Sprintf_d i = (if i < 0 then CHR ''-'' # string_of_nat (nat (- i)) else string_of_nat (nat i))"

text \<open>\<open>strings.TrimSuffix\<close>: the suffix is removed once when the string ends with it.\<close>

definition TrimSuffix :: "string \<Rightarrow> string \<Rightarrow> string" where
  "TrimSuffix s suf = (if suffix suf s then take (length s - length suf) s else s)"

section \<open>The HTTP client (internal/usgdns/usgdns.go)\<close>

text \<open>
  Modelled from the spec: the type \<open>usgdns.Record\<close> is declared in the module
  \<open>github.com/rclsilver-org/usg-dns-api/db\<close>, which is not part of the sources. The spec
  (section 3) gives it the string attributes \<open>ID\<close>, \<open>Name\<close> and \<open>Target\<close>, the three
  fields the client and the adapters read and write.
\<close>

record Record =
  ID :: string
  Name :: string
  Target :: string

record Client =
  url :: string
  token :: string

text \<open>
  \<open>http.Request\<close> and \<open>http.Response\<close>, reduced to what the client touches. The header is
  Go's \<open>map[string][]string\<close>. The body of a response is the outcome of \<open>io.ReadAll\<close> on it
  (each response is read at most once): \<open>Inl\<close> the read error, \<open>Inr\<close> the bytes.
\<close>

record Request =
  Method :: string
  URL :: string
  Header :: "string \<rightharpoonup> string list"
  ReqBody :: "string option"

record Response =
  StatusCode :: int
  Body :: "string + string"

text \<open>
  The standard library and the network are parameters of the model, one field for each
  call the client makes into them:
  \<^item> \<open>url_Parse\<close>: \<open>url.Parse\<close> followed by \<open>URL.String\<close>, the error or the serialised URL;
  \<^item> \<open>json_Marshal\<close>: \<open>json.Marshal\<close> of a record;
  \<^item> \<open>NewRequest_error\<close>: the error of \<open>http.NewRequest\<close> for a method and a URL, if any;
  \<^item> \<open>http_Do\<close>: \<open>http.DefaultClient.Do\<close>; the answer of the remote server may depend on
    the requests it has received before;
  \<^item> \<open>Unmarshal_Record\<close>, \<open>Unmarshal_Records\<close>, \<open>Unmarshal_Message\<close>: \<open>json.Unmarshal\<close> into a
    zero \<open>usgdns.Record\<close>, a nil \<open>[]usgdns.Record\<close> and a zero
    \<open>struct { Message string `json:"message"` }\<close>; \<open>Inr\<close> carries the decoded value
    (for the last one, the field \<open>Message\<close>).
\<close>

record runtime =
  url_Parse :: "string \<Rightarrow> string + string"
  json_Marshal :: "Record \<Rightarrow> string + string"
  NewRequest_error :: "string \<Rightarrow> string \<Rightarrow> string option"
  http_Do :: "Request list \<Rightarrow> Request \<Rightarrow> string + Response"
  Unmarshal_Record :: "string \<Rightarrow> string + Record"
  Unmarshal_Records :: "string \<Rightarrow> string + Record list"
  Unmarshal_Message :: "string \<Rightarrow> string + string"

definition MethodGet :: string where "MethodGet = ''GET''"
definition MethodPost :: string where "MethodPost = ''POST''"
definition MethodPut :: string where "MethodPut = ''PUT''"
definition MethodDelete :: string where "MethodDelete = ''DELETE''"

definition StatusOK :: int where "StatusOK = 200"
definition StatusCreated :: int where "StatusCreated = 201"
definition StatusNoContent :: int where "StatusNoContent = 204"

text \<open>\<open>NewClient\<close> returns a client and an error; the error is \<open>Inl\<close>.\<close>

definition NewClient :: "string \<Rightarrow> string \<Rightarrow> string + Client" where
  "NewClient u t = Inr \<lparr>url = TrimSuffix u ''/'', token = t\<rparr>"

definition http_NewRequest :: "runtime \<Rightarrow> string \<Rightarrow> string \<Rightarrow> string option \<Rightarrow> string + Request" where
  "http_NewRequest rt method u bodyReader =
     (case NewRequest_error rt method u of
        Some e \<Rightarrow> Inl e
      | None \<Rightarrow> Inr \<lparr>Method = method, URL = u, Header = Map.empty, ReqBody = bodyReader\<rparr>)"

text \<open>\<open>req.Header.Set\<close>: the values of the key are replaced by the single new value.\<close>

definition Header_Set :: "Request \<Rightarrow> string \<Rightarrow> string \<Rightarrow> Request" where
  "Header_Set req k v = req\<lparr>Header := (Header req)(k \<mapsto> [v])\<rparr>"

text \<open>
  Every operation takes the list of the requests handed to \<open>http.DefaultClient.Do\<close> so far
  and returns it extended: the effect of the client on the network.
\<close>

definition do ::
  "runtime \<Rightarrow> Client \<Rightarrow> string \<Rightarrow> string \<Rightarrow> Record option \<Rightarrow> Request list
     \<Rightarrow> (string + Response) \<times> Request list" where
  "do rt c method uri body sent =
     (case url_Parse rt (url c @ uri) of
        Inl err \<Rightarrow> (Inl (''unable to parse the URL: '' @ err), sent)
      | Inr parsedURL \<Rightarrow>
          (case (case body of
                   None \<Rightarrow> Inr None
                 | Some b \<Rightarrow>
                     (case json_Marshal rt b of
                        Inl err \<Rightarrow> Inl err
                      | Inr bodyBytes \<Rightarrow> Inr (Some bodyBytes))) of
             Inl err \<Rightarrow> (Inl (''unable to marshal the body: '' @ err), sent)
           | Inr bodyReader \<Rightarrow>
               (case http_NewRequest rt method parsedURL bodyReader of
                  Inl err \<Rightarrow> (Inl (''unable to build the request: '' @ err), sent)
                | Inr req0 \<Rightarrow>
                    (let req = Header_Set req0 ''Authorization'' (token c)
                     in (http_Do rt sent req, sent @ [req])))))"

definition unmarshal :: "(string \<Rightarrow> string + 'a) \<Rightarrow> Response \<Rightarrow> string + 'a" where
  "unmarshal decode res =
     (case Body res of
        Inl err \<Rightarrow> Inl (''unable to read the body: '' @ err)
      | Inr bodyBytes \<Rightarrow>
          (case decode bodyBytes of
             Inl err \<Rightarrow> Inl (''unable to unmarshal the body: '' @ err)
           | Inr ret \<Rightarrow> Inr ret))"

definition getError :: "runtime \<Rightarrow> Response \<Rightarrow> string + string" where
  "getError rt res =
     (case unmarshal (Unmarshal_Message rt) res of
        Inl err \<Rightarrow> Inl err
      | Inr message \<Rightarrow> Inr message)"

definition GetRecords ::
  "runtime \<Rightarrow> Client \<Rightarrow> Request list \<Rightarrow> (string + Record list) \<times> Request list" where
  "GetRecords rt c sent =
     (let (r, sent') = do rt c MethodGet ''/records'' None sent;
          r' = (case r of
                  Inl err \<Rightarrow> Inl err
                | Inr res \<Rightarrow>
                    if StatusCode res \<noteq> StatusOK
                    then Inl (''unexpected status code: '' @ Sprintf_d (StatusCode res))
                    else Inr res)
      in case r' of
           Inl err \<Rightarrow> (Inl (''error while executing the request: '' @ err), sent')
         | Inr res \<Rightarrow>
             (case unmarshal (Unmarshal_Records rt) res of
                Inl err \<Rightarrow> (Inl (''unable to get the result: '' @ err), sent')
              | Inr records \<Rightarrow> (Inr records, sent')))"

definition CreateRecord ::
  "runtime \<Rightarrow> Client \<Rightarrow> string \<Rightarrow> string \<Rightarrow> Request list \<Rightarrow> (string + Record) \<times> Request list" where
  "CreateRecord rt c name target sent =
     (let (r, sent') = do rt c MethodPost ''/records''
                         (Some \<lparr>ID = '''', Name = name, Target = target\<rparr>) sent;
          r' = (case r of
                  Inl err \<Rightarrow> Inl err
                | Inr res \<Rightarrow>
                    if StatusCode res \<noteq> StatusCreated
                    then (let err = ''unexpected status code: '' @ Sprintf_d (StatusCode res)
                          in case getError rt res of
                               Inl err2 \<Rightarrow> Inl err
                             | Inr errMsg \<Rightarrow>
                                 if errMsg \<noteq> '''' then Inl (err @ '': '' @ errMsg) else Inl err)
                    else Inr res)
      in case r' of
           Inl err \<Rightarrow> (Inl (''error while executing the request: '' @ err), sent')
         | Inr res \<Rightarrow>
             (case unmarshal (Unmarshal_Record rt) res of
                Inl err \<Rightarrow> (Inl (''unable to get the result: '' @ err), sent')
              | Inr record \<Rightarrow> (Inr record, sent')))"

definition GetRecord ::
  "runtime \<Rightarrow> Client \<Rightarrow> string \<Rightarrow> Request list \<Rightarrow> (string + Record) \<times> Request list" where
  "GetRecord rt c id' sent =
     (let (r, sent') = do rt c MethodGet (''/records/'' @ id') None sent;
          r' = (case r of
                  Inl err \<Rightarrow> Inl err
                | Inr res \<Rightarrow>
                    if StatusCode res \<noteq> StatusOK
                    then (let err = ''unexpected status code: '' @ Sprintf_d (StatusCode res)
                          in case getError rt res of
                               Inl err2 \<Rightarrow> Inl err
                             | Inr errMsg \<Rightarrow>
                                 if errMsg \<noteq> '''' then Inl (err @ '': '' @ errMsg) else Inl err)
                    else Inr res)
      in case r' of
           Inl err \<Rightarrow> (Inl (''error while executing the request: '' @ err), sent')
         | Inr res \<Rightarrow>
             (case unmarshal (Unmarshal_Record rt) res of
                Inl err \<Rightarrow> (Inl (''unable to get the result: '' @ err), sent')
              | Inr record \<Rightarrow> (Inr record, sent')))"

definition UpdateRecord ::
  "runtime \<Rightarrow> Client \<Rightarrow> string \<Rightarrow> string \<Rightarrow> string \<Rightarrow> Request list
     \<Rightarrow> (string + Record) \<times> Request list" where
  "UpdateRecord rt c id' name target sent =
     (let (r, sent') = do rt c MethodPut (''/records/'' @ id')
                         (Some \<lparr>ID = '''', Name = name, Target = target\<rparr>) sent;
          r' = (case r of
                  Inl err \<Rightarrow> Inl err
                | Inr res \<Rightarrow>
                    if StatusCode res \<noteq> StatusOK
                    then (let err = ''unexpected status code: '' @ Sprintf_d (StatusCode res)
                          in case getError rt res of
                               Inl err2 \<Rightarrow> Inl err
                             | Inr errMsg \<Rightarrow>
                                 if errMsg \<noteq> '''' then Inl (err @ '': '' @ errMsg) else Inl err)
                    else Inr res)
      in case r' of
           Inl err \<Rightarrow> (Inl (''error while executing the request: '' @ err), sent')
         | Inr res \<Rightarrow>
             (case unmarshal (Unmarshal_Record rt) res of
                Inl err \<Rightarrow> (Inl (''unable to get the result: '' @ err), sent')
              | Inr record \<Rightarrow> (Inr record, sent')))"

text \<open>\<open>DeleteRecord\<close> returns an \<open>error\<close> only: \<open>None\<close> is \<open>nil\<close>.\<close>

definition DeleteRecord ::
  "runtime \<Rightarrow> Client \<Rightarrow> string \<Rightarrow> Request list \<Rightarrow> string option \<times> Request list" where
  "DeleteRecord rt c id' sent =
     (let (r, sent') = do rt c MethodDelete (''/records/'' @ id') None sent;
          r' = (case r of
                  Inl err \<Rightarrow> Inl err
                | Inr res \<Rightarrow>
                    if StatusCode res \<noteq> StatusNoContent
                    then Inl (''unexpected status code: '' @ Sprintf_d (StatusCode res))
                    else Inr res)
      in case r' of
           Inl err \<Rightarrow> (Some (''error while executing the request: '' @ err), sent')
         | Inr res \<Rightarrow> (None, sent'))"

section \<open>The plugin framework, as far as the adapters use it\<close>

text \<open>
  \<open>types.String\<close> of the plugin framework: a string attribute is null, unknown or a known
  value. \<open>ValueString\<close> is the empty string for a null or unknown attribute.
\<close>

datatype types_String = StringNull | StringUnknown | StringValue string

fun IsNull :: "types_String \<Rightarrow> bool" where
  "IsNull StringNull = True"
| "IsNull StringUnknown = False"
| "IsNull (StringValue v) = False"

fun IsUnknown :: "types_String \<Rightarrow> bool" where
  "IsUnknown StringNull = False"
| "IsUnknown StringUnknown = True"
| "IsUnknown (StringValue v) = False"

fun ValueString :: "types_String \<Rightarrow> string" where
  "ValueString StringNull = ''''"
| "ValueString StringUnknown = ''''"
| "ValueString (StringValue v) = v"

text \<open>
  \<open>diag.Diagnostics\<close>: a list of diagnostics, each with a severity, a summary, a detail and,
  for an attribute diagnostic, the path of the attribute. \<open>Append\<close> skips a diagnostic
  that the list already contains.
\<close>

datatype Severity = SeverityError | SeverityWarning

record Diagnostic =
  Severity :: Severity
  Summary :: string
  Detail :: string
  Path :: "string option"

fun Contains :: "Diagnostic list \<Rightarrow> Diagnostic \<Rightarrow> bool" where
  "Contains [] d = False"
| "Contains (x # xs) d = (x = d \<or> Contains xs d)"

fun Append :: "Diagnostic list \<Rightarrow> Diagnostic list \<Rightarrow> Diagnostic list" where
  "Append diags [] = diags"
| "Append diags (d # ds) = Append (if Contains diags d then diags else diags @ [d]) ds"

fun HasError :: "Diagnostic list \<Rightarrow> bool" where
  "HasError [] = False"
| "HasError (d # ds) = (Severity d = SeverityError \<or> HasError ds)"

definition AddError :: "Diagnostic list \<Rightarrow> string \<Rightarrow> string \<Rightarrow> Diagnostic list" where
  "AddError diags s d =
     Append diags [\<lparr>Severity = SeverityError, Summary = s, Detail = d, Path = None\<rparr>]"

definition AddAttributeError ::
  "Diagnostic list \<Rightarrow> string \<Rightarrow> string \<Rightarrow> string \<Rightarrow> Diagnostic list" where
  "AddAttributeError diags p s d =
     Append diags [\<lparr>Severity = SeverityError, Summary = s, Detail = d, Path = Some p\<rparr>]"

text \<open>
  \<open>req.Config\<close>, \<open>req.Plan\<close> and \<open>req.State\<close> are read only through \<open>Get(ctx, &target)\<close>.
  They are modelled by what that call yields: the diagnostics it returns and the value it
  leaves in the target.
\<close>

record 'm tfsdk_Data =
  Get_diags :: "Diagnostic list"
  Get_value :: "'m"

text \<open>
  The responses. \<open>State\<close> is the state the response carries back to the host tool; \<open>None\<close>
  is the null state (nothing persisted). \<open>resp.State.Set(ctx, model)\<close> replaces it; a
  model of the schema's own shape always converts, so \<open>Set\<close> returns no diagnostic.
\<close>

record Diagnosed =
  Diagnostics :: "Diagnostic list"

record ConfigureResponse = Diagnosed +
  DataSourceData :: "Client option"
  ResourceData :: "Client option"

record 's StateResponse = Diagnosed +
  State :: "'s option"

definition State_Set :: "'s StateResponse \<Rightarrow> 's \<Rightarrow> Diagnostic list \<times> 's StateResponse" where
  "State_Set resp val = ([], resp\<lparr>State := Some val\<rparr>)"

text \<open>A method called through a nil \<open>*usgdns.Client\<close> panics when it reads the client.\<close>

datatype panic = NilPointerDereference

section \<open>The provider: \<open>usgDnsProvider.Configure\<close>\<close>

definition envCfgUrl :: string where "envCfgUrl = ''USG_DNS_URL''"
definition envCfgToken :: string where "envCfgToken = ''USG_DNS_TOKEN''"

record usgDnsProviderModel =
  cfg_URL :: types_String
  cfg_Token :: types_String

text \<open>The detail texts of the diagnostics that \<open>Configure\<close> reports.\<close>

definition detail_unknown_url :: string where
  "detail_unknown_url =
     ''The provider cannot create the usg-dns API client as there is an unknown configuration value for the URL. ''
     @ ''Either target apply the source of the value first, set the value statically in the configuration, or use the ''
     @ envCfgUrl @ '' environment variable.''"

definition detail_unknown_token :: string where
  "detail_unknown_token =
     ''The provider cannot create the usg-dns API client as there is an unknown configuration value for the token. ''
     @ ''Either target apply the source of the value first, set the value statically in the configuration, or use the ''
     @ envCfgToken @ '' environment variable.''"

definition detail_missing_url :: string where
  "detail_missing_url =
     ''The provider cannot create the usg-dns API client as there is a missing or empty value for the URL. ''
     @ ''Set the host value in the configuration or use the '' @ envCfgUrl @ '' environment variable. ''
     @ ''If either is already set, ensure the value is not empty.''"

definition detail_missing_token :: string where
  "detail_missing_token =
     ''The provider cannot create the usg-dns API client as there is a missing or empty value for the token. ''
     @ ''Set the username value in the configuration or use the '' @ envCfgToken @ '' environment variable. ''
     @ ''If either is already set, ensure the value is not empty.''"

definition detail_client_error :: "string \<Rightarrow> string" where
  "detail_client_error err =
     ''An unexpected error occurred when creating the usg-dns API client. ''
     @ ''If the error is not clear, please contact the provider developers.'' @ [CHR 0x0A, CHR 0x0A]
     @ ''usg-dns Client Error: '' @ err"

text \<open>
  \<open>Configure\<close>. \<open>getenv\<close> is \<open>os.Getenv\<close>: the value of a variable, empty when it is not
  set. The path \<open>path.Root("url")\<close> is the attribute name.
\<close>

definition usgDnsProvider_Configure ::
  "(string \<Rightarrow> string) \<Rightarrow> usgDnsProviderModel tfsdk_Data \<Rightarrow> ConfigureResponse \<Rightarrow> ConfigureResponse" where
  "usgDnsProvider_Configure getenv req_Config resp =
     (let config = Get_value req_Config;
          diags = Get_diags req_Config;
          resp = resp\<lparr>Diagnostics := Append (Diagnostics resp) diags\<rparr>
      in if HasError (Diagnostics resp) then resp
         else
           let resp = (if IsUnknown (cfg_URL config)
                       then resp\<lparr>Diagnostics := AddAttributeError (Diagnostics resp) ''url''
                              ''Unknown usg-dns API URL'' detail_unknown_url\<rparr>
                       else resp);
               resp = (if IsUnknown (cfg_Token config)
                       then resp\<lparr>Diagnostics := AddAttributeError (Diagnostics resp) ''token''
                              ''Unknown usg-dns API token'' detail_unknown_token\<rparr>
                       else resp)
           in if HasError (Diagnostics resp) then resp
              else
                let u = getenv envCfgUrl;
                    t = getenv envCfgToken;
                    u = (if \<not> IsNull (cfg_URL config) then ValueString (cfg_URL config) else u);
                    t = (if \<not> IsNull (cfg_Token config) then ValueString (cfg_Token config) else t);
                    resp = (if u = ''''
                            then resp\<lparr>Diagnostics := AddAttributeError (Diagnostics resp) ''url''
                                   ''Missing usg-dns API URL'' detail_missing_url\<rparr>
                            else resp);
                    resp = (if t = ''''
                            then resp\<lparr>Diagnostics := AddAttributeError (Diagnostics resp) ''token''
                                   ''Missing usg-dns API token'' detail_missing_token\<rparr>
                            else resp)
                in if HasError (Diagnostics resp) then resp
                   else
                     (case NewClient u t of
                        Inl err \<Rightarrow>
                          resp\<lparr>Diagnostics := AddError (Diagnostics resp)
                                 ''Unable to Create usg-dns API Client'' (detail_client_error err)\<rparr>
                      | Inr client \<Rightarrow>
                          resp\<lparr>DataSourceData := Some client, ResourceData := Some client\<rparr>))"

section \<open>The record resource and the records data source (internal/provider)\<close>

record recordResourceModel =
  attr_id :: types_String
  attr_name :: types_String
  attr_target :: types_String

text \<open>
  A Go slice is nil or holds a list of elements: \<open>None\<close> is the nil slice, the zero value
  of a slice. \<open>append\<close> on the nil slice gives a slice with the one element.
  \<open>State.Set\<close> writes a nil slice as the null list and any other slice as the list of its
  elements, so a state with \<open>Records = None\<close> is the state whose \<open>records\<close> attribute is
  null.
\<close>

type_synonym 'a slice = "'a list option"

definition append_slice :: "'a slice \<Rightarrow> 'a \<Rightarrow> 'a slice" where
  "append_slice s x = (case s of None \<Rightarrow> Some [x] | Some xs \<Rightarrow> Some (xs @ [x]))"

record recordsDataSourceModel =
  Records :: "recordResourceModel slice"

record recordResource =
  client :: "Client option"

record recordsDataSource =
  ds_client :: "Client option"

definition recordResource_Create ::
  "runtime \<Rightarrow> recordResource \<Rightarrow> recordResourceModel tfsdk_Data
     \<Rightarrow> recordResourceModel StateResponse \<Rightarrow> Request list
     \<Rightarrow> panic + (recordResourceModel StateResponse \<times> Request list)" where
  "recordResource_Create rt r req_Plan resp sent =
     (let plan = Get_value req_Plan;
          diags = Get_diags req_Plan;
          resp = resp\<lparr>Diagnostics := Append (Diagnostics resp) diags\<rparr>
      in if HasError (Diagnostics resp) then Inr (resp, sent)
         else
           (case client r of
              None \<Rightarrow> Inl NilPointerDereference
            | Some c \<Rightarrow>
                (case CreateRecord rt c (ValueString (attr_name plan))
                        (ValueString (attr_target plan)) sent of
                   (Inl err, sent') \<Rightarrow>
                     Inr (resp\<lparr>Diagnostics :=
                            AddError (Diagnostics resp) ''Unable to create the usg-dns record'' err\<rparr>,
                          sent')
                 | (Inr record, sent') \<Rightarrow>
                     (let plan = plan\<lparr>attr_id := StringValue (ID record)\<rparr>;
                          plan = plan\<lparr>attr_name := StringValue (Name record)\<rparr>;
                          plan = plan\<lparr>attr_target := StringValue (Target record)\<rparr>;
                          (diags, resp) = State_Set resp plan;
                          resp = resp\<lparr>Diagnostics := Append (Diagnostics resp) diags\<rparr>
                      in Inr (resp, sent')))))"

definition recordResource_Read ::
  "runtime \<Rightarrow> recordResource \<Rightarrow> recordResourceModel tfsdk_Data
     \<Rightarrow> recordResourceModel StateResponse \<Rightarrow> Request list
     \<Rightarrow> panic + (recordResourceModel StateResponse \<times> Request list)" where
  "recordResource_Read rt r req_State resp sent =
     (let state = Get_value req_State;
          diags = Get_diags req_State;
          resp = resp\<lparr>Diagnostics := Append (Diagnostics resp) diags\<rparr>
      in if HasError (Diagnostics resp) then Inr (resp, sent)
         else
           (case client r of
              None \<Rightarrow> Inl NilPointerDereference
            | Some c \<Rightarrow>
                (case GetRecord rt c (ValueString (attr_id state)) sent of
                   (Inl err, sent') \<Rightarrow>
                     Inr (resp\<lparr>Diagnostics :=
                            AddError (Diagnostics resp) ''Error Reading usg-dns record''
                              (''Could not read usg-dns record ID '' @ ValueString (attr_id state)
                                 @ '': '' @ err)\<rparr>,
                          sent')
                 | (Inr record, sent') \<Rightarrow>
                     (let state = state\<lparr>attr_name := StringValue (Name record)\<rparr>;
                          state = state\<lparr>attr_target := StringValue (Target record)\<rparr>;
                          (diags, resp) = State_Set resp state;
                          resp = resp\<lparr>Diagnostics := Append (Diagnostics resp) diags\<rparr>
                      in Inr (resp, sent')))))"

text \<open>
  The loop of the data source's \<open>Read\<close>: each record is appended to \<open>state.Records\<close>. The
  loop does not run for a slice without elements, nil or not: the model takes the
  elements of \<open>records\<close> as a list.
\<close>

fun append_records :: "recordsDataSourceModel \<Rightarrow> Record list \<Rightarrow> recordsDataSourceModel" where
  "append_records state [] = state"
| "append_records state (record # records) =
     (let recordState = \<lparr>attr_id = StringValue (ID record),
                          attr_name = StringValue (Name record),
                          attr_target = StringValue (Target record)\<rparr>
      in append_records (state\<lparr>Records := append_slice (Records state) recordState\<rparr>) records)"

definition recordsDataSource_Read ::
  "runtime \<Rightarrow> recordsDataSource \<Rightarrow> recordsDataSourceModel StateResponse \<Rightarrow> Request list
     \<Rightarrow> panic + (recordsDataSourceModel StateResponse \<times> Request list)" where
  "recordsDataSource_Read rt d resp sent =
     (let state = \<lparr>Records = None\<rparr>
      in case ds_client d of
           None \<Rightarrow> Inl NilPointerDereference
         | Some c \<Rightarrow>
             (case GetRecords rt c sent of
                (Inl err, sent') \<Rightarrow>
                  Inr (resp\<lparr>Diagnostics :=
                         AddError (Diagnostics resp) ''Unable to fetch the usg-dns records'' err\<rparr>,
                       sent')
              | (Inr records, sent') \<Rightarrow>
                  (let state = append_records state records;
                       (diags, resp) = State_Set resp state;
                       resp = resp\<lparr>Diagnostics := Append (Diagnostics resp) diags\<rparr>
                   in Inr (resp, sent'))))"

section \<open>Observing an operation, and a concrete scenario\<close>

text \<open>The requests an operation has added to the list of the requests sent.\<close>

definition issued :: "Request list \<Rightarrow> Request list \<Rightarrow> Request list" where
  "issued sent sent' = drop (length sent) sent'"

text \<open>
  The scenario of the spec's section 8: a client for \<open>https://dns.example.com\<close> with the
  token \<open>secret\<close>, and a runtime whose server answers every request with the given
  response, whose URL serialisation is the identity and whose decoders know the three
  bodies of the scenario.
\<close>

definition example_client :: Client where
  "example_client = \<lparr>url = ''https://dns.example.com'', token = ''secret''\<rparr>"

definition example_record :: Record where
  "example_record = \<lparr>ID = ''42'', Name = ''www'', Target = ''1.2.3.4''\<rparr>"

text \<open>A list of three records, not sorted and with the first record listed twice.\<close>

definition example_records :: "Record list" where
  "example_records =
     [\<lparr>ID = ''7'', Name = ''zeta'', Target = ''10.0.0.7''\<rparr>,
      \<lparr>ID = ''42'', Name = ''www'', Target = ''1.2.3.4''\<rparr>,
      \<lparr>ID = ''7'', Name = ''zeta'', Target = ''10.0.0.7''\<rparr>]"

definition example_runtime :: "Response \<Rightarrow> runtime" where
  \<open>example_runtime res =
     \<lparr>url_Parse = Inr,
      json_Marshal = (\<lambda>r. Inr (''{"name":"'' @ Name r @ ''","target":"'' @ Target r @ ''"}'')),
      NewRequest_error = (\<lambda>method u. None),
      http_Do = (\<lambda>sent req. Inr res),
      Unmarshal_Record = (\<lambda>b. if b = ''{"id":"42","name":"www","target":"1.2.3.4"}''
                               then Inr example_record
                               else Inl ''unexpected end of JSON input''),
      Unmarshal_Records = (\<lambda>b. if b = ''[{"id":"42","name":"www","target":"1.2.3.4"}]''
                                then Inr [example_record]
                                else if b = ''[{"id":"7","name":"zeta","target":"10.0.0.7"},{"id":"42","name":"www","target":"1.2.3.4"},{"id":"7","name":"zeta","target":"10.0.0.7"}]''
                                then Inr example_records
                                else if b = ''[]''
                                then Inr []
                                else Inl ''unexpected end of JSON input''),
      Unmarshal_Message = (\<lambda>b. if b = ''{"message":"name already exists"}''
                                then Inr ''name already exists''
                                else Inl ''unexpected end of JSON input'')\<rparr>\<close>

definition example_error :: Response where
  \<open>example_error = \<lparr>StatusCode = 400, Body = Inr ''{"message":"name already exists"}''\<rparr>\<close>

definition example_created :: Response where
  \<open>example_created =
     \<lparr>StatusCode = 201, Body = Inr ''{"id":"42","name":"www","target":"1.2.3.4"}''\<rparr>\<close>

definition example_no_content :: Response where
  "example_no_content = \<lparr>StatusCode = 204, Body = Inr ''''\<rparr>"

text \<open>An environment in which no variable is set, and a fresh response.\<close>

definition env_unset :: "string \<Rightarrow> string" where
  "env_unset v = ''''"

definition empty_ConfigureResponse :: ConfigureResponse where
  "empty_ConfigureResponse = \<lparr>Diagnostics = [], DataSourceData = None, ResourceData = None\<rparr>"

text \<open>An environment in which both variables of the provider are set.\<close>

definition example_env :: "string \<Rightarrow> string" where
  "example_env v =
     (if v = ''USG_DNS_URL'' then ''https://dns.example.com/''
      else if v = ''USG_DNS_TOKEN'' then ''token-of-the-environment''
      else '''')"

definition example_ok :: Response where
  \<open>example_ok = \<lparr>StatusCode = 200, Body = Inr ''{"id":"42","name":"www","target":"1.2.3.4"}''\<rparr>\<close>

definition example_list :: Response where
  \<open>example_list = \<lparr>StatusCode = 200, Body = Inr ''[{"id":"42","name":"www","target":"1.2.3.4"}]''\<rparr>\<close>

definition example_three :: Response where
  \<open>example_three =
     \<lparr>StatusCode = 200,
      Body = Inr ''[{"id":"7","name":"zeta","target":"10.0.0.7"},{"id":"42","name":"www","target":"1.2.3.4"},{"id":"7","name":"zeta","target":"10.0.0.7"}]''\<rparr>\<close>

definition example_empty_list :: Response where
  "example_empty_list = \<lparr>StatusCode = 200, Body = Inr ''[]''\<rparr>"

text \<open>A resource and a data source configured with the client, and a tracked state.\<close>

definition example_resource :: recordResource where
  "example_resource = \<lparr>client = Some example_client\<rparr>"

definition example_data_source :: recordsDataSource where
  "example_data_source = \<lparr>ds_client = Some example_client\<rparr>"

definition example_state :: recordResourceModel where
  "example_state = \<lparr>attr_id = StringValue ''42'', attr_name = StringValue ''old'',
                     attr_target = StringValue ''9.9.9.9''\<rparr>"

definition example_plan :: recordResourceModel where
  "example_plan = \<lparr>attr_id = StringUnknown, attr_name = StringValue ''www'',
                    attr_target = StringValue ''1.2.3.4''\<rparr>"

definition example_state_request :: "recordResourceModel tfsdk_Data" where
  "example_state_request = \<lparr>Get_diags = [], Get_value = example_state\<rparr>"

definition example_plan_request :: "recordResourceModel tfsdk_Data" where
  "example_plan_request = \<lparr>Get_diags = [], Get_value = example_plan\<rparr>"

definition example_read_response :: "recordResourceModel StateResponse" where
  "example_read_response = \<lparr>Diagnostics = [], State = Some example_state\<rparr>"

definition empty_StateResponse :: "'s StateResponse" where
  "empty_StateResponse = \<lparr>Diagnostics = [], State = None\<rparr>"

section \<open>Auxiliary lemmas\<close>

lemma Contains_set: "Contains ds d \<longleftrightarrow> d \<in> set ds"
  by (induction ds) auto


lemma HasError_set: "HasError ds \<longleftrightarrow> (\<exists>d \<in> set ds. Severity d = SeverityError)"
  by (induction ds) auto

lemma do_result:
  "(\<exists>e. do rt c m uri b sent = (Inl e, sent)) \<or>
   (\<exists>v bytes. url_Parse rt (url c @ uri) = Inr v \<and> NewRequest_error rt m v = None \<and>
      (case b of None \<Rightarrow> bytes = None | Some x \<Rightarrow> json_Marshal rt x = Inr (the bytes) \<and> bytes \<noteq> None) \<and>
      do rt c m uri b sent =
         (http_Do rt sent \<lparr>Method = m, URL = v, Header = [''Authorization'' \<mapsto> [token c]], ReqBody = bytes\<rparr>,
          sent @ [\<lparr>Method = m, URL = v, Header = [''Authorization'' \<mapsto> [token c]], ReqBody = bytes\<rparr>]))"
proof (cases "url_Parse rt (url c @ uri)")
  case (Inl e)
  then show ?thesis by (simp add: do_def)
next
  case (Inr v)
  note v = this
  show ?thesis
  proof (cases "NewRequest_error rt m v")
    case None
    show ?thesis
    proof (cases b)
      case bn: None
      with v \<open>NewRequest_error rt m v = None\<close> show ?thesis
        by (simp add: do_def http_NewRequest_def Header_Set_def Let_def)
    next
      case (Some x)
      with v None show ?thesis
        by (cases "json_Marshal rt x") (simp_all add: do_def http_NewRequest_def Header_Set_def Let_def)
    qed
  next
    case (Some e)
    with v show ?thesis
      by (cases b) (simp_all add: do_def http_NewRequest_def split: sum.split)
  qed
qed

lemma do_cases:
  obtains (failed) e where "do rt c m uri b sent = (Inl e, sent)"
  | (issued) v bytes where
      "url_Parse rt (url c @ uri) = Inr v"
      "NewRequest_error rt m v = None"
      "do rt c m uri b sent =
         (http_Do rt sent \<lparr>Method = m, URL = v, Header = [''Authorization'' \<mapsto> [token c]], ReqBody = bytes\<rparr>,
          sent @ [\<lparr>Method = m, URL = v, Header = [''Authorization'' \<mapsto> [token c]], ReqBody = bytes\<rparr>])"
  using do_result[of rt c m uri b sent] by blast

lemma do_issued:
  "\<forall>q \<in> set (issued sent (snd (do rt c m uri b sent))).
     Method q = m \<and> url_Parse rt (url c @ uri) = Inr (URL q) \<and> Header q ''Authorization'' = Some [token c]"
  by (cases rule: do_cases[of rt c m uri b sent]) (auto simp: issued_def)

lemma GetRecords_sent: "snd (GetRecords rt c sent) = snd (do rt c MethodGet ''/records'' None sent)"
  by (simp add: GetRecords_def Let_def split: prod.splits sum.splits)

lemma CreateRecord_sent:
  "snd (CreateRecord rt c name target sent) =
   snd (do rt c MethodPost ''/records'' (Some \<lparr>ID = '''', Name = name, Target = target\<rparr>) sent)"
  by (simp add: CreateRecord_def Let_def split: prod.splits sum.splits)

lemma GetRecord_sent:
  "snd (GetRecord rt c i sent) = snd (do rt c MethodGet (''/records/'' @ i) None sent)"
  by (simp add: GetRecord_def Let_def split: prod.splits sum.splits)

lemma UpdateRecord_sent:
  "snd (UpdateRecord rt c i name target sent) =
   snd (do rt c MethodPut (''/records/'' @ i) (Some \<lparr>ID = '''', Name = name, Target = target\<rparr>) sent)"
  by (simp add: UpdateRecord_def Let_def split: prod.splits sum.splits)

lemma DeleteRecord_sent:
  "snd (DeleteRecord rt c i sent) = snd (do rt c MethodDelete (''/records/'' @ i) None sent)"
  by (simp add: DeleteRecord_def Let_def split: prod.splits sum.splits)

lemma getError_eq:
  "getError rt res =
     (case Body res of
        Inl e \<Rightarrow> Inl (''unable to read the body: '' @ e)
      | Inr b \<Rightarrow> (case Unmarshal_Message rt b of
                   Inl e \<Rightarrow> Inl (''unable to unmarshal the body: '' @ e)
                 | Inr m \<Rightarrow> Inr m))"
  by (simp add: getError_def unmarshal_def split: sum.splits)

lemma CreateRecord_status:
  assumes "fst (do rt c MethodPost ''/records'' (Some \<lparr>ID = '''', Name = name, Target = target\<rparr>) sent) = Inr res"
    and "StatusCode res \<noteq> StatusCreated"
  shows "fst (CreateRecord rt c name target sent) =
     Inl (''error while executing the request: unexpected status code: '' @ Sprintf_d (StatusCode res)
       @ (case getError rt res of Inl e \<Rightarrow> '''' | Inr m \<Rightarrow> if m \<noteq> '''' then '': '' @ m else ''''))"
proof -
  from assms(1) obtain s where "do rt c MethodPost ''/records'' (Some \<lparr>ID = '''', Name = name, Target = target\<rparr>) sent = (Inr res, s)"
    by (cases "do rt c MethodPost ''/records'' (Some \<lparr>ID = '''', Name = name, Target = target\<rparr>) sent") auto
  then show ?thesis
    using assms(2) by (simp add: CreateRecord_def split: sum.splits)
qed

lemma GetRecord_status:
  assumes "fst (do rt c MethodGet (''/records/'' @ i) None sent) = Inr res"
    and "StatusCode res \<noteq> StatusOK"
  shows "fst (GetRecord rt c i sent) =
     Inl (''error while executing the request: unexpected status code: '' @ Sprintf_d (StatusCode res)
       @ (case getError rt res of Inl e \<Rightarrow> '''' | Inr m \<Rightarrow> if m \<noteq> '''' then '': '' @ m else ''''))"
proof -
  from assms(1) obtain s where "do rt c MethodGet (''/records/'' @ i) None sent = (Inr res, s)"
    by (cases "do rt c MethodGet (''/records/'' @ i) None sent") auto
  then show ?thesis
    using assms(2) by (simp add: GetRecord_def split: sum.splits)
qed

lemma UpdateRecord_status:
  assumes "fst (do rt c MethodPut (''/records/'' @ i) (Some \<lparr>ID = '''', Name = name, Target = target\<rparr>) sent) = Inr res"
    and "StatusCode res \<noteq> StatusOK"
  shows "fst (UpdateRecord rt c i name target sent) =
     Inl (''error while executing the request: unexpected status code: '' @ Sprintf_d (StatusCode res)
       @ (case getError rt res of Inl e \<Rightarrow> '''' | Inr m \<Rightarrow> if m \<noteq> '''' then '': '' @ m else ''''))"
proof -
  from assms(1) obtain s where "do rt c MethodPut (''/records/'' @ i) (Some \<lparr>ID = '''', Name = name, Target = target\<rparr>) sent = (Inr res, s)"
    by (cases "do rt c MethodPut (''/records/'' @ i) (Some \<lparr>ID = '''', Name = name, Target = target\<rparr>) sent") auto
  then show ?thesis
    using assms(2) by (simp add: UpdateRecord_def split: sum.splits)
qed

lemma enriched_text:
  assumes "e = ''error while executing the request: unexpected status code: '' @ Sprintf_d (StatusCode res)
       @ (case getError rt res of Inl e \<Rightarrow> '''' | Inr m \<Rightarrow> if m \<noteq> '''' then '': '' @ m else '''')"
  shows "sublist (''unexpected status code: '' @ Sprintf_d (StatusCode res)) e"
    and "\<And>b m. Body res = Inr b \<Longrightarrow> Unmarshal_Message rt b = Inr m \<Longrightarrow> m \<noteq> '''' \<Longrightarrow>
           e = ''error while executing the request: unexpected status code: ''
                 @ Sprintf_d (StatusCode res) @ '': '' @ m"
    and "(\<And>b m. Body res = Inr b \<Longrightarrow> Unmarshal_Message rt b = Inr m \<Longrightarrow> m = '''') \<Longrightarrow>
           e = ''error while executing the request: unexpected status code: '' @ Sprintf_d (StatusCode res)"
proof -
  have "e = ''error while executing the request: '' @ (''unexpected status code: '' @ Sprintf_d (StatusCode res))
       @ (case getError rt res of Inl e \<Rightarrow> '''' | Inr m \<Rightarrow> if m \<noteq> '''' then '': '' @ m else '''')"
    using assms by simp
  then show "sublist (''unexpected status code: '' @ Sprintf_d (StatusCode res)) e"
    using sublist_appendI by blast
next
  fix b m assume "Body res = Inr b" "Unmarshal_Message rt b = Inr m" "m \<noteq> ''''"
  then show "e = ''error while executing the request: unexpected status code: ''
                 @ Sprintf_d (StatusCode res) @ '': '' @ m"
    using assms by (simp add: getError_eq)
next
  assume "\<And>b m. Body res = Inr b \<Longrightarrow> Unmarshal_Message rt b = Inr m \<Longrightarrow> m = ''''"
  then show "e = ''error while executing the request: unexpected status code: '' @ Sprintf_d (StatusCode res)"
    using assms by (auto simp add: getError_eq split: sum.splits)
qed


lemma Sprintf_d_400: "Sprintf_d 400 = ''400''"
  by (simp add: Sprintf_d_def string_of_nat.simps digit_char_def)

lemma example_do:
  "fst (do (example_runtime res) c m uri b sent) = Inr res"
  by (cases b) (simp_all add: do_def example_runtime_def http_NewRequest_def Let_def)


lemma do_issues_one:
  assumes "url_Parse rt (url c @ uri) = Inr v"
    and "NewRequest_error rt m v = None"
    and "case b of None \<Rightarrow> bytes = None | Some x \<Rightarrow> json_Marshal rt x = Inr y \<and> bytes = Some y"
  shows "issued sent (snd (do rt c m uri b sent)) =
     [\<lparr>Method = m, URL = v, Header = [''Authorization'' \<mapsto> [token c]], ReqBody = bytes\<rparr>]"
  using assms
  by (cases b) (simp_all add: do_def http_NewRequest_def Header_Set_def Let_def issued_def)

lemma TrimSuffix_slash: "TrimSuffix u ''/'' = (if suffix ''/'' u then butlast u else u)"
  by (simp add: TrimSuffix_def butlast_conv_take)

lemma NewClient_example: "NewClient ''https://dns.example.com/'' ''secret'' = Inr example_client"
  by (simp add: NewClient_def TrimSuffix_def suffix_to_prefix example_client_def)

lemma example_issued:
  "issued [] (snd (do (example_runtime res) example_client m uri None [])) =
     [\<lparr>Method = m, URL = ''https://dns.example.com'' @ uri,
       Header = [''Authorization'' \<mapsto> [''secret'']], ReqBody = None\<rparr>]"
  by (simp add: do_issues_one[where bytes = None and v = "''https://dns.example.com'' @ uri"]
        example_runtime_def example_client_def)

lemma do_decoders:
  "do (rt\<lparr>Unmarshal_Record := f, Unmarshal_Records := g, Unmarshal_Message := h\<rparr>) c m uri b sent
     = do rt c m uri b sent"
  by (simp add: do_def http_NewRequest_def split: sum.split option.split)

lemma DeleteRecord_result:
  "fst (DeleteRecord rt c i sent) =
     (case fst (do rt c MethodDelete (''/records/'' @ i) None sent) of
        Inl e \<Rightarrow> Some (''error while executing the request: '' @ e)
      | Inr res \<Rightarrow>
          if StatusCode res = StatusNoContent then None
          else Some (''error while executing the request: unexpected status code: ''
                       @ Sprintf_d (StatusCode res)))"
  by (cases "do rt c MethodDelete (''/records/'' @ i) None sent")
     (simp add: DeleteRecord_def split: sum.splits)

lemma example_do_delete:
  "fst (do (example_runtime res) example_client ''DELETE'' (''/records/'' @ ''42'') None []) = Inr res"
  using example_do[of res example_client "''DELETE''" "''/records/'' @ ''42''" None "[]"] .

lemma Configure_steps:
  assumes "cfg = Get_value req"
    and "r1 = resp\<lparr>Diagnostics := Append (Diagnostics resp) (Get_diags req)\<rparr>"
    and "r2 = (if IsUnknown (cfg_URL cfg)
               then r1\<lparr>Diagnostics := AddAttributeError (Diagnostics r1) ''url''
                          ''Unknown usg-dns API URL'' detail_unknown_url\<rparr> else r1)"
    and "r3 = (if IsUnknown (cfg_Token cfg)
               then r2\<lparr>Diagnostics := AddAttributeError (Diagnostics r2) ''token''
                          ''Unknown usg-dns API token'' detail_unknown_token\<rparr> else r2)"
    and "u = (if \<not> IsNull (cfg_URL cfg) then ValueString (cfg_URL cfg) else getenv envCfgUrl)"
    and "t = (if \<not> IsNull (cfg_Token cfg) then ValueString (cfg_Token cfg) else getenv envCfgToken)"
    and "r4 = (if u = ''''
               then r3\<lparr>Diagnostics := AddAttributeError (Diagnostics r3) ''url''
                          ''Missing usg-dns API URL'' detail_missing_url\<rparr> else r3)"
    and "r5 = (if t = ''''
               then r4\<lparr>Diagnostics := AddAttributeError (Diagnostics r4) ''token''
                          ''Missing usg-dns API token'' detail_missing_token\<rparr> else r4)"
  shows "usgDnsProvider_Configure getenv req resp =
     (if HasError (Diagnostics r1) then r1
      else if HasError (Diagnostics r3) then r3
      else if HasError (Diagnostics r5) then r5
      else r5\<lparr>DataSourceData := Some \<lparr>url = TrimSuffix u ''/'', token = t\<rparr>,
               ResourceData := Some \<lparr>url = TrimSuffix u ''/'', token = t\<rparr>\<rparr>)"
  unfolding usgDnsProvider_Configure_def NewClient_def Let_def sum.case assms
  by (rule refl)

lemma AddAttributeError_set:
  "set (AddAttributeError ds p s d) =
     insert \<lparr>Severity = SeverityError, Summary = s, Detail = d, Path = Some p\<rparr> (set ds)"
  by (auto simp: AddAttributeError_def Contains_set)

lemma HasError_AddAttributeError: "HasError (AddAttributeError ds p s d)"
  by (simp add: HasError_set AddAttributeError_set)

lemma filter_AddAttributeError:
  "s \<noteq> x \<Longrightarrow> filter (\<lambda>d. Summary d = x) (AddAttributeError ds p s d) = filter (\<lambda>d. Summary d = x) ds"
  by (simp add: AddAttributeError_def)

lemma Configure_known:
  assumes ok: "\<not> HasError (Append (Diagnostics resp) (Get_diags req))"
    and ku: "\<not> IsUnknown (cfg_URL (Get_value req))"
    and kt: "\<not> IsUnknown (cfg_Token (Get_value req))"
    and u: "u = (case cfg_URL (Get_value req) of
                   StringNull \<Rightarrow> getenv ''USG_DNS_URL'' | StringUnknown \<Rightarrow> '''' | StringValue v \<Rightarrow> v)"
    and t: "t = (case cfg_Token (Get_value req) of
                   StringNull \<Rightarrow> getenv ''USG_DNS_TOKEN'' | StringUnknown \<Rightarrow> '''' | StringValue v \<Rightarrow> v)"
    and d1: "d1 = Append (Diagnostics resp) (Get_diags req)"
    and d2: "d2 = (if u = '''' then AddAttributeError d1 ''url'' ''Missing usg-dns API URL'' detail_missing_url
                   else d1)"
    and d3: "d3 = (if t = '''' then AddAttributeError d2 ''token'' ''Missing usg-dns API token'' detail_missing_token
                   else d2)"
  shows "usgDnsProvider_Configure getenv req resp =
     (if u = '''' \<or> t = '''' then resp\<lparr>Diagnostics := d3\<rparr>
      else resp\<lparr>Diagnostics := d1,
                DataSourceData := Some \<lparr>url = TrimSuffix u ''/'', token = t\<rparr>,
                ResourceData := Some \<lparr>url = TrimSuffix u ''/'', token = t\<rparr>\<rparr>)"
proof -
  define cfg where "cfg = Get_value req"
  define r1 where "r1 = resp\<lparr>Diagnostics := Append (Diagnostics resp) (Get_diags req)\<rparr>"
  define r2 where "r2 = (if IsUnknown (cfg_URL cfg)
               then r1\<lparr>Diagnostics := AddAttributeError (Diagnostics r1) ''url''
                          ''Unknown usg-dns API URL'' detail_unknown_url\<rparr> else r1)"
  define r3 where "r3 = (if IsUnknown (cfg_Token cfg)
               then r2\<lparr>Diagnostics := AddAttributeError (Diagnostics r2) ''token''
                          ''Unknown usg-dns API token'' detail_unknown_token\<rparr> else r2)"
  define u' where "u' = (if \<not> IsNull (cfg_URL cfg) then ValueString (cfg_URL cfg) else getenv envCfgUrl)"
  define t' where "t' = (if \<not> IsNull (cfg_Token cfg) then ValueString (cfg_Token cfg) else getenv envCfgToken)"
  define r4 where "r4 = (if u' = ''''
               then r3\<lparr>Diagnostics := AddAttributeError (Diagnostics r3) ''url''
                          ''Missing usg-dns API URL'' detail_missing_url\<rparr> else r3)"
  define r5 where "r5 = (if t' = ''''
               then r4\<lparr>Diagnostics := AddAttributeError (Diagnostics r4) ''token''
                          ''Missing usg-dns API token'' detail_missing_token\<rparr> else r4)"
  note steps = Configure_steps[OF cfg_def r1_def r2_def r3_def u'_def t'_def r4_def r5_def]
  have r13: "r3 = r1" "\<not> HasError (Diagnostics r1)"
    using ok ku kt by (simp_all add: r3_def r2_def r1_def cfg_def)
  have uu: "u' = u"
    using ku by (cases "cfg_URL (Get_value req)") (simp_all add: u'_def u cfg_def envCfgUrl_def)
  have tt: "t' = t"
    using kt by (cases "cfg_Token (Get_value req)") (simp_all add: t'_def t cfg_def envCfgToken_def)
  have r4: "r4 = resp\<lparr>Diagnostics := d2\<rparr>"
    by (simp add: r4_def r13 uu d2 d1 r1_def)
  have r5: "r5 = resp\<lparr>Diagnostics := d3\<rparr>"
    by (simp add: r5_def r4 tt d3)
  have e: "HasError d3 \<longleftrightarrow> u = '''' \<or> t = ''''"
    using ok by (simp add: d3 d2 d1 HasError_AddAttributeError)
  have n: "\<not> (u = '''' \<or> t = '''') \<Longrightarrow> d3 = d1"
    by (simp add: d3 d2)
  show ?thesis
    unfolding steps using r13 e n by (simp add: r5 uu tt)
qed

lemma Configure_unknown_token_run:
  "usgDnsProvider_Configure env_unset
     \<lparr>Get_diags = [], Get_value = \<lparr>cfg_URL = StringNull, cfg_Token = StringUnknown\<rparr>\<rparr>
     empty_ConfigureResponse
   = \<lparr>Diagnostics = [\<lparr>Severity = SeverityError, Summary = ''Unknown usg-dns API token'',
                        Detail = detail_unknown_token, Path = Some ''token''\<rparr>],
      DataSourceData = None, ResourceData = None\<rparr>"
  by (simp add: Configure_steps[OF refl refl refl refl refl refl refl refl]
        empty_ConfigureResponse_def AddAttributeError_def)




lemma Append_Nil: "Append ds [] = ds"
  by simp

lemma AddError_set:
  "set (AddError ds s d) =
     insert \<lparr>Severity = SeverityError, Summary = s, Detail = d, Path = None\<rparr> (set ds)"
  by (auto simp: AddError_def Contains_set)

lemma HasError_AddError: "HasError (AddError ds s d)"
  by (simp add: HasError_set AddError_set)

lemma example_do_pair:
  "do (example_runtime res) c m uri b sent = (Inr res, snd (do (example_runtime res) c m uri b sent))"
  using example_do[of res c m uri b sent] by (cases "do (example_runtime res) c m uri b sent") simp

lemma example_GetRecord_ok:
  "fst (GetRecord (example_runtime example_ok) example_client ''42'' []) = Inr example_record"
  by (subst GetRecord_def, subst example_do_pair)
     (simp add: example_ok_def StatusOK_def unmarshal_def example_runtime_def)

lemma example_GetRecord_error:
  "fst (GetRecord (example_runtime example_error) example_client ''42'' [])
     = Inl ''error while executing the request: unexpected status code: 400: name already exists''"
  by (subst GetRecord_def, subst example_do_pair)
     (simp add: example_error_def StatusOK_def unmarshal_def getError_def example_runtime_def
        Sprintf_d_400)

lemma example_CreateRecord_ok:
  "fst (CreateRecord (example_runtime example_created) example_client ''www'' ''1.2.3.4'' [])
     = Inr example_record"
  by (subst CreateRecord_def, subst example_do_pair)
     (simp add: example_created_def StatusCreated_def unmarshal_def example_runtime_def)

lemma example_CreateRecord_error:
  "fst (CreateRecord (example_runtime example_error) example_client ''www'' ''1.2.3.4'' [])
     = Inl ''error while executing the request: unexpected status code: 400: name already exists''"
  by (subst CreateRecord_def, subst example_do_pair)
     (simp add: example_error_def StatusCreated_def unmarshal_def getError_def example_runtime_def
        Sprintf_d_400)

lemma example_GetRecords_ok:
  "fst (GetRecords (example_runtime example_list) example_client []) = Inr [example_record]"
  by (subst GetRecords_def, subst example_do_pair)
     (simp add: example_list_def StatusOK_def unmarshal_def example_runtime_def)

lemma append_records_eq:
  "Records (append_records state records) =
     (if records = [] then Records state
      else Some ((case Records state of None \<Rightarrow> [] | Some xs \<Rightarrow> xs)
                 @ map (\<lambda>record. \<lparr>attr_id = StringValue (ID record),
                                      attr_name = StringValue (Name record),
                                      attr_target = StringValue (Target record)\<rparr>) records))"
  by (induction records arbitrary: state)
     (simp_all add: Let_def append_slice_def split: option.split)

lemma example_GetRecords_three:
  "fst (GetRecords (example_runtime example_three) example_client []) = Inr example_records"
  by (subst GetRecords_def, subst example_do_pair)
     (simp add: example_three_def StatusOK_def unmarshal_def example_runtime_def)

lemma example_GetRecords_empty:
  "fst (GetRecords (example_runtime example_empty_list) example_client []) = Inr []"
  by (subst GetRecords_def, subst example_do_pair)
     (simp add: example_empty_list_def StatusOK_def unmarshal_def example_runtime_def)

lemma data_source_empty_run:
  "recordsDataSource_Read (example_runtime example_empty_list) example_data_source
     empty_StateResponse []
   = Inr (\<lparr>Diagnostics = [], State = Some \<lparr>Records = None\<rparr>\<rparr>,
          snd (GetRecords (example_runtime example_empty_list) example_client []))"
proof -
  let ?e = "GetRecords (example_runtime example_empty_list) example_client []"
  have e: "?e = (Inr [], snd ?e)"
    using example_GetRecords_empty by (cases ?e) simp
  then obtain s where s: "?e = (Inr [], s)" ..
  show ?thesis
    by (simp add: recordsDataSource_Read_def example_data_source_def s State_Set_def
          empty_StateResponse_def)
qed

lemma do_issues_header:
  assumes "url_Parse rt (url c @ uri) = Inr v"
    and "NewRequest_error rt m v = None"
    and "case b of None \<Rightarrow> True | Some x \<Rightarrow> json_Marshal rt x = Inr y"
  shows "map (\<lambda>q. Header q ''Authorization'') (issued sent (snd (do rt c m uri b sent)))
           = [Some [token c]]"
proof (cases b)
  case None
  with assms show ?thesis
    by (simp add: do_issues_one[where bytes = None and v = v])
next
  case (Some x)
  with assms show ?thesis
    by (simp add: do_issues_one[where bytes = "Some y" and y = y and v = v])
qed

section \<open>The claims\<close>

text \<open>
  Claim C1. \<open>CreateRecord\<close>, \<open>GetRecord\<close> and \<open>UpdateRecord\<close>: when the request was
  answered (\<open>do\<close> returned a response) with a status other than the one the operation
  expects, the operation returns an error whose text contains
  \<open>unexpected status code: <status>\<close>. When the body of the response was read and decoded
  to a non-empty message, the text is the status-code error followed by \<open>: \<close> and the
  message; when the body could not be read or decoded, or the message is empty, the text
  is the status-code error alone, and the decoding error appears nowhere.
\<close>

theorem unexpected_status_error:
  assumes "(r, d, expected) \<in>
      {(fst (CreateRecord rt c name target sent),
        fst (do rt c MethodPost ''/records'' (Some \<lparr>ID = '''', Name = name, Target = target\<rparr>) sent),
        StatusCreated),
       (fst (GetRecord rt c i sent),
        fst (do rt c MethodGet (''/records/'' @ i) None sent),
        StatusOK),
       (fst (UpdateRecord rt c i name target sent),
        fst (do rt c MethodPut (''/records/'' @ i) (Some \<lparr>ID = '''', Name = name, Target = target\<rparr>) sent),
        StatusOK)}"
    and "d = Inr res"
    and "StatusCode res \<noteq> expected"
  shows "\<exists>e. r = Inl e \<and>
           sublist (''unexpected status code: '' @ Sprintf_d (StatusCode res)) e \<and>
           (\<forall>b m. Body res = Inr b \<and> Unmarshal_Message rt b = Inr m \<and> m \<noteq> '''' \<longrightarrow>
              e = ''error while executing the request: unexpected status code: ''
                    @ Sprintf_d (StatusCode res) @ '': '' @ m) \<and>
           ((\<forall>b m. Body res = Inr b \<and> Unmarshal_Message rt b = Inr m \<longrightarrow> m = '''') \<longrightarrow>
              e = ''error while executing the request: unexpected status code: ''
                    @ Sprintf_d (StatusCode res))"
proof -
  let ?e = "''error while executing the request: unexpected status code: '' @ Sprintf_d (StatusCode res)
       @ (case getError rt res of Inl e \<Rightarrow> '''' | Inr m \<Rightarrow> if m \<noteq> '''' then '': '' @ m else '''')"
  have "r = Inl ?e"
    using assms CreateRecord_status[of rt c name target sent res]
      GetRecord_status[of rt c i sent res] UpdateRecord_status[of rt c i name target sent res]
    by auto
  moreover note enriched_text[OF refl, where res=res and rt=rt]
  ultimately show ?thesis by blast
qed

theorem unexpected_status_error_witness:
  "fst (do (example_runtime example_error) example_client MethodPost ''/records''
          (Some \<lparr>ID = '''', Name = ''www'', Target = ''1.2.3.4''\<rparr>) []) = Inr example_error \<and>
   StatusCode example_error \<noteq> StatusCreated \<and>
   fst (CreateRecord (example_runtime example_error) example_client ''www'' ''1.2.3.4'' []) =
     Inl ''error while executing the request: unexpected status code: 400: name already exists''"
proof -
  let ?rt = "example_runtime example_error"
  let ?d = "fst (do ?rt example_client MethodPost ''/records''
          (Some \<lparr>ID = '''', Name = ''www'', Target = ''1.2.3.4''\<rparr>) [])"
  let ?r = "fst (CreateRecord ?rt example_client ''www'' ''1.2.3.4'' [])"
  have d: "?d = Inr example_error" by (rule example_do)
  have ne: "StatusCode example_error \<noteq> StatusCreated"
    by (simp add: example_error_def StatusCreated_def)
  have b: "Body example_error = Inr ''{\"message\":\"name already exists\"}''"
    by (simp add: example_error_def)
  have m: "Unmarshal_Message ?rt ''{\"message\":\"name already exists\"}'' = Inr ''name already exists''"
    by (simp add: example_runtime_def)
  from unexpected_status_error[where r = ?r and d = ?d and expected = StatusCreated
      and rt = ?rt and c = example_client and name = "''www''" and target = "''1.2.3.4''"
      and sent = "[]" and res = example_error, OF _ d ne]
  obtain e where "?r = Inl e"
    and "\<forall>b m. Body example_error = Inr b \<and> Unmarshal_Message ?rt b = Inr m \<and> m \<noteq> '''' \<longrightarrow>
              e = ''error while executing the request: unexpected status code: ''
                    @ Sprintf_d (StatusCode example_error) @ '': '' @ m"
    by auto
  with b m have "?r = Inl (''error while executing the request: unexpected status code: ''
                    @ Sprintf_d (StatusCode example_error) @ '': '' @ ''name already exists'')"
    by blast
  then have "?r = Inl ''error while executing the request: unexpected status code: 400: name already exists''"
    by (simp add: example_error_def Sprintf_d_400)
  with d ne show ?thesis by simp
qed

text \<open>
  Claim C2, as amended. When decoding the configuration raised no error and neither the
  URL nor the token is unknown, the URL \<open>u\<close> that \<open>Configure\<close> resolves is the value of
  \<open>USG_DNS_URL\<close> when the configured URL is null and the configured value otherwise (the
  configuration wins over the environment), and likewise the token \<open>t\<close> with
  \<open>USG_DNS_TOKEN\<close>. When both are non-empty, the client handed to the data sources and
  resources is \<open>NewClient u t\<close> and no diagnostic is added. When \<open>u\<close> is empty, the
  missing-URL error is reported and no client is stored; when \<open>t\<close> is empty, the
  missing-token error is reported and no client is stored.
\<close>

theorem Configure_resolution:
  assumes "\<not> HasError (Append (Diagnostics resp) (Get_diags req))"
    and "\<not> IsUnknown (cfg_URL (Get_value req))"
    and "\<not> IsUnknown (cfg_Token (Get_value req))"
    and "u = (case cfg_URL (Get_value req) of
                StringNull \<Rightarrow> getenv ''USG_DNS_URL'' | StringUnknown \<Rightarrow> '''' | StringValue v \<Rightarrow> v)"
    and "t = (case cfg_Token (Get_value req) of
                StringNull \<Rightarrow> getenv ''USG_DNS_TOKEN'' | StringUnknown \<Rightarrow> '''' | StringValue v \<Rightarrow> v)"
    and "r = usgDnsProvider_Configure getenv req resp"
  shows "(u \<noteq> '''' \<and> t \<noteq> '''' \<longrightarrow>
            NewClient u t = Inr \<lparr>url = TrimSuffix u ''/'', token = t\<rparr> \<and>
            DataSourceData r = Some \<lparr>url = TrimSuffix u ''/'', token = t\<rparr> \<and>
            ResourceData r = Some \<lparr>url = TrimSuffix u ''/'', token = t\<rparr> \<and>
            Diagnostics r = Append (Diagnostics resp) (Get_diags req)) \<and>
         (u = '''' \<longrightarrow>
            \<lparr>Severity = SeverityError, Summary = ''Missing usg-dns API URL'',
              Detail = detail_missing_url, Path = Some ''url''\<rparr> \<in> set (Diagnostics r) \<and>
            DataSourceData r = DataSourceData resp \<and> ResourceData r = ResourceData resp) \<and>
         (t = '''' \<longrightarrow>
            \<lparr>Severity = SeverityError, Summary = ''Missing usg-dns API token'',
              Detail = detail_missing_token, Path = Some ''token''\<rparr> \<in> set (Diagnostics r) \<and>
            DataSourceData r = DataSourceData resp \<and> ResourceData r = ResourceData resp)"
proof -
  define d1 where "d1 = Append (Diagnostics resp) (Get_diags req)"
  define d2 where "d2 = (if u = '''' then AddAttributeError d1 ''url'' ''Missing usg-dns API URL'' detail_missing_url
                   else d1)"
  define d3 where "d3 = (if t = '''' then AddAttributeError d2 ''token'' ''Missing usg-dns API token'' detail_missing_token
                   else d2)"
  note k = Configure_known[OF assms(1-5) d1_def d2_def d3_def]
  have a: "u \<noteq> '''' \<and> t \<noteq> '''' \<longrightarrow>
            NewClient u t = Inr \<lparr>url = TrimSuffix u ''/'', token = t\<rparr> \<and>
            DataSourceData r = Some \<lparr>url = TrimSuffix u ''/'', token = t\<rparr> \<and>
            ResourceData r = Some \<lparr>url = TrimSuffix u ''/'', token = t\<rparr> \<and>
            Diagnostics r = Append (Diagnostics resp) (Get_diags req)"
    by (simp add: assms(6) k d1_def NewClient_def)
  have b: "u = '''' \<longrightarrow>
            \<lparr>Severity = SeverityError, Summary = ''Missing usg-dns API URL'',
              Detail = detail_missing_url, Path = Some ''url''\<rparr> \<in> set (Diagnostics r) \<and>
            DataSourceData r = DataSourceData resp \<and> ResourceData r = ResourceData resp"
    by (simp add: assms(6) k d3_def d2_def AddAttributeError_set)
  have c: "t = '''' \<longrightarrow>
            \<lparr>Severity = SeverityError, Summary = ''Missing usg-dns API token'',
              Detail = detail_missing_token, Path = Some ''token''\<rparr> \<in> set (Diagnostics r) \<and>
            DataSourceData r = DataSourceData resp \<and> ResourceData r = ResourceData resp"
    by (simp add: assms(6) k d3_def AddAttributeError_set)
  from a b c show ?thesis by (intro conjI)
qed

theorem Configure_resolution_witness:
  "ResourceData (usgDnsProvider_Configure example_env
      \<lparr>Get_diags = [], Get_value = \<lparr>cfg_URL = StringNull, cfg_Token = StringValue ''secret''\<rparr>\<rparr>
      empty_ConfigureResponse) = Some example_client \<and>
   \<lparr>Severity = SeverityError, Summary = ''Missing usg-dns API URL'',
     Detail = detail_missing_url, Path = Some ''url''\<rparr>
     \<in> set (Diagnostics (usgDnsProvider_Configure env_unset
          \<lparr>Get_diags = [], Get_value = \<lparr>cfg_URL = StringNull, cfg_Token = StringValue ''secret''\<rparr>\<rparr>
          empty_ConfigureResponse)) \<and>
   \<lparr>Severity = SeverityError, Summary = ''Missing usg-dns API token'',
     Detail = detail_missing_token, Path = Some ''token''\<rparr>
     \<in> set (Diagnostics (usgDnsProvider_Configure example_env
          \<lparr>Get_diags = [], Get_value = \<lparr>cfg_URL = StringNull, cfg_Token = StringValue ''''\<rparr>\<rparr>
          empty_ConfigureResponse))"
proof -
  let ?req = "\<lparr>Get_diags = [], Get_value = \<lparr>cfg_URL = StringNull, cfg_Token = StringValue ''secret''\<rparr>\<rparr>"
  let ?req' = "\<lparr>Get_diags = [], Get_value = \<lparr>cfg_URL = StringNull, cfg_Token = StringValue ''''\<rparr>\<rparr>"
  have ok: "\<not> HasError (Append (Diagnostics empty_ConfigureResponse) (Get_diags ?req))"
    "\<not> HasError (Append (Diagnostics empty_ConfigureResponse) (Get_diags ?req'))"
    by (simp_all add: empty_ConfigureResponse_def)
  have 1: "ResourceData (usgDnsProvider_Configure example_env ?req empty_ConfigureResponse)
             = Some example_client"
    using Configure_resolution[where getenv = example_env and req = ?req
        and resp = empty_ConfigureResponse and u = "''https://dns.example.com/''" and t = "''secret''",
        OF ok(1) _ _ _ _ refl]
    by (simp add: example_env_def example_client_def TrimSuffix_def suffix_to_prefix)
  have 2: "\<lparr>Severity = SeverityError, Summary = ''Missing usg-dns API URL'',
     Detail = detail_missing_url, Path = Some ''url''\<rparr>
     \<in> set (Diagnostics (usgDnsProvider_Configure env_unset ?req empty_ConfigureResponse))"
    using Configure_resolution[where getenv = env_unset and req = ?req
        and resp = empty_ConfigureResponse and u = "''''" and t = "''secret''",
        OF ok(1) _ _ _ _ refl]
    by (simp add: env_unset_def)
  have 3: "\<lparr>Severity = SeverityError, Summary = ''Missing usg-dns API token'',
     Detail = detail_missing_token, Path = Some ''token''\<rparr>
     \<in> set (Diagnostics (usgDnsProvider_Configure example_env ?req' empty_ConfigureResponse))"
    using Configure_resolution[where getenv = example_env and req = ?req'
        and resp = empty_ConfigureResponse and u = "''https://dns.example.com/''" and t = "''''",
        OF ok(2) _ _ _ _ refl]
    by (simp add: example_env_def)
  from 1 2 3 show ?thesis by (intro conjI)
qed

text \<open>
  The claim as first stated, for every configuration, fails: with a null URL, no
  environment variable and an unknown token, the URL resolves to nothing, and
  \<open>Configure\<close> stops after the unknown-token error, before the missing-URL check.
\<close>

theorem Configure_resolution_counterexample:
  "IsNull StringNull \<and> env_unset ''USG_DNS_URL'' = '''' \<and>
   map Summary (Diagnostics (usgDnsProvider_Configure env_unset
     \<lparr>Get_diags = [], Get_value = \<lparr>cfg_URL = StringNull, cfg_Token = StringUnknown\<rparr>\<rparr>
     empty_ConfigureResponse)) = [''Unknown usg-dns API token''] \<and>
   ''Missing usg-dns API URL'' \<notin> set (map Summary (Diagnostics (usgDnsProvider_Configure env_unset
     \<lparr>Get_diags = [], Get_value = \<lparr>cfg_URL = StringNull, cfg_Token = StringUnknown\<rparr>\<rparr>
     empty_ConfigureResponse)))"
  by (simp add: Configure_unknown_token_run env_unset_def)




text \<open>
  Claim C4. The resource's \<open>Read\<close>, for a state that decodes without error and a
  configured client: when \<open>GetRecord\<close> for the state's ID returns a record, the state
  written back is the decoded state with \<open>name\<close> and \<open>target\<close> replaced by the record's
  and the \<open>id\<close> as it was, and no diagnostic is added; when \<open>GetRecord\<close> returns an
  error, the state of the response is left as it was and the error diagnostic
  \<open>Error Reading usg-dns record\<close> is reported.
\<close>

theorem Read_refreshes_state:
  assumes "\<not> HasError (Append (Diagnostics resp) (Get_diags req_State))"
    and "client r = Some c"
    and "state = Get_value req_State"
  shows "(\<forall>record sent'.
            GetRecord rt c (ValueString (attr_id state)) sent = (Inr record, sent') \<longrightarrow>
            (\<exists>resp'. recordResource_Read rt r req_State resp sent = Inr (resp', sent') \<and>
               State resp' = Some (state\<lparr>attr_name := StringValue (Name record),
                                         attr_target := StringValue (Target record)\<rparr>) \<and>
               attr_id (the (State resp')) = attr_id state \<and>
               Diagnostics resp' = Append (Diagnostics resp) (Get_diags req_State))) \<and>
         (\<forall>err sent'.
            GetRecord rt c (ValueString (attr_id state)) sent = (Inl err, sent') \<longrightarrow>
            (\<exists>resp'. recordResource_Read rt r req_State resp sent = Inr (resp', sent') \<and>
               State resp' = State resp \<and>
               \<lparr>Severity = SeverityError, Summary = ''Error Reading usg-dns record'',
                 Detail = ''Could not read usg-dns record ID '' @ ValueString (attr_id state)
                            @ '': '' @ err,
                 Path = None\<rparr> \<in> set (Diagnostics resp')))"
  using assms
  by (simp add: recordResource_Read_def State_Set_def AddError_set)

theorem Read_refreshes_state_witness:
  "(\<exists>resp' sent'.
      recordResource_Read (example_runtime example_ok) example_resource example_state_request
        example_read_response [] = Inr (resp', sent') \<and>
      State resp' = Some \<lparr>attr_id = StringValue ''42'', attr_name = StringValue ''www'',
                          attr_target = StringValue ''1.2.3.4''\<rparr>) \<and>
   (\<exists>resp' sent'.
      recordResource_Read (example_runtime example_error) example_resource example_state_request
        example_read_response [] = Inr (resp', sent') \<and>
      State resp' = Some example_state \<and>
      \<lparr>Severity = SeverityError, Summary = ''Error Reading usg-dns record'',
        Detail = ''Could not read usg-dns record ID 42: error while executing the request: unexpected status code: 400: name already exists'',
        Path = None\<rparr> \<in> set (Diagnostics resp'))"
proof -
  have ok: "\<not> HasError (Append (Diagnostics example_read_response) (Get_diags example_state_request))"
    by (simp add: example_read_response_def example_state_request_def)
  have cl: "client example_resource = Some example_client"
    by (simp add: example_resource_def)
  have st: "example_state = Get_value example_state_request"
    by (simp add: example_state_request_def)
  have i: "ValueString (attr_id example_state) = ''42''"
    by (simp add: example_state_def)
  note rd = Read_refreshes_state[OF ok cl st, unfolded i]
  let ?g = "GetRecord (example_runtime example_ok) example_client ''42'' []"
  let ?e = "GetRecord (example_runtime example_error) example_client ''42'' []"
  have g: "?g = (Inr example_record, snd ?g)"
    using example_GetRecord_ok by (cases ?g) simp
  have e: "?e = (Inl ''error while executing the request: unexpected status code: 400: name already exists'', snd ?e)"
    using example_GetRecord_error by (cases ?e) simp
  from rd[of "example_runtime example_ok" "[]"] g
  obtain resp1 where 1:
    "recordResource_Read (example_runtime example_ok) example_resource example_state_request
        example_read_response [] = Inr (resp1, snd ?g)"
    "State resp1 = Some (example_state\<lparr>attr_name := StringValue (Name example_record),
                                         attr_target := StringValue (Target example_record)\<rparr>)"
    by blast
  from rd[of "example_runtime example_error" "[]"] e
  obtain resp2 where 2:
    "recordResource_Read (example_runtime example_error) example_resource example_state_request
        example_read_response [] = Inr (resp2, snd ?e)"
    "State resp2 = State example_read_response"
    "\<lparr>Severity = SeverityError, Summary = ''Error Reading usg-dns record'',
       Detail = ''Could not read usg-dns record ID '' @ ''42'' @ '': ''
         @ ''error while executing the request: unexpected status code: 400: name already exists'',
       Path = None\<rparr> \<in> set (Diagnostics resp2)"
    by blast
  from 1 have a: "\<exists>resp' sent'.
      recordResource_Read (example_runtime example_ok) example_resource example_state_request
        example_read_response [] = Inr (resp', sent') \<and>
      State resp' = Some \<lparr>attr_id = StringValue ''42'', attr_name = StringValue ''www'',
                          attr_target = StringValue ''1.2.3.4''\<rparr>"
    by (simp add: example_state_def example_record_def)
  from 2 have b: "\<exists>resp' sent'.
      recordResource_Read (example_runtime example_error) example_resource example_state_request
        example_read_response [] = Inr (resp', sent') \<and>
      State resp' = Some example_state \<and>
      \<lparr>Severity = SeverityError, Summary = ''Error Reading usg-dns record'',
        Detail = ''Could not read usg-dns record ID 42: error while executing the request: unexpected status code: 400: name already exists'',
        Path = None\<rparr> \<in> set (Diagnostics resp')"
    by (simp add: example_read_response_def)
  from a b show ?thesis by (rule conjI)
qed

text \<open>
  Claim C5. The resource's \<open>Create\<close>, for a plan that decodes without error and a
  configured client: when \<open>CreateRecord\<close> returns a record, the state written is made of
  the record's \<open>ID\<close>, \<open>Name\<close> and \<open>Target\<close>; when it returns an error, the error
  diagnostic \<open>Unable to create the usg-dns record\<close> with the error's text is reported and
  the state of the response is not touched (for a fresh response, no state at all).
\<close>

theorem Create_persists_record:
  assumes "\<not> HasError (Append (Diagnostics resp) (Get_diags req_Plan))"
    and "client r = Some c"
    and "plan = Get_value req_Plan"
  shows "(\<forall>record sent'.
            CreateRecord rt c (ValueString (attr_name plan)) (ValueString (attr_target plan)) sent
              = (Inr record, sent') \<longrightarrow>
            (\<exists>resp'. recordResource_Create rt r req_Plan resp sent = Inr (resp', sent') \<and>
               State resp' = Some \<lparr>attr_id = StringValue (ID record),
                                   attr_name = StringValue (Name record),
                                   attr_target = StringValue (Target record)\<rparr> \<and>
               Diagnostics resp' = Append (Diagnostics resp) (Get_diags req_Plan))) \<and>
         (\<forall>err sent'.
            CreateRecord rt c (ValueString (attr_name plan)) (ValueString (attr_target plan)) sent
              = (Inl err, sent') \<longrightarrow>
            (\<exists>resp'. recordResource_Create rt r req_Plan resp sent = Inr (resp', sent') \<and>
               State resp' = State resp \<and>
               HasError (Diagnostics resp') \<and>
               \<lparr>Severity = SeverityError, Summary = ''Unable to create the usg-dns record'',
                 Detail = err, Path = None\<rparr> \<in> set (Diagnostics resp')))"
  using assms
  by (simp add: recordResource_Create_def State_Set_def AddError_set HasError_AddError)

theorem Create_persists_record_witness:
  "(\<exists>resp' sent'.
      recordResource_Create (example_runtime example_created) example_resource example_plan_request
        empty_StateResponse [] = Inr (resp', sent') \<and>
      State resp' = Some \<lparr>attr_id = StringValue ''42'', attr_name = StringValue ''www'',
                          attr_target = StringValue ''1.2.3.4''\<rparr>) \<and>
   (\<exists>resp' sent'.
      recordResource_Create (example_runtime example_error) example_resource example_plan_request
        empty_StateResponse [] = Inr (resp', sent') \<and>
      State resp' = None \<and>
      \<lparr>Severity = SeverityError, Summary = ''Unable to create the usg-dns record'',
        Detail = ''error while executing the request: unexpected status code: 400: name already exists'',
        Path = None\<rparr> \<in> set (Diagnostics resp'))"
proof -
  have ok: "\<not> HasError (Append (Diagnostics (empty_StateResponse :: recordResourceModel StateResponse))
                 (Get_diags example_plan_request))"
    by (simp add: empty_StateResponse_def example_plan_request_def)
  have cl: "client example_resource = Some example_client"
    by (simp add: example_resource_def)
  have pl: "example_plan = Get_value example_plan_request"
    by (simp add: example_plan_request_def)
  have n: "ValueString (attr_name example_plan) = ''www''"
    and t: "ValueString (attr_target example_plan) = ''1.2.3.4''"
    by (simp_all add: example_plan_def)
  note cr = Create_persists_record[OF ok cl pl, unfolded n t]
  let ?g = "CreateRecord (example_runtime example_created) example_client ''www'' ''1.2.3.4'' []"
  let ?e = "CreateRecord (example_runtime example_error) example_client ''www'' ''1.2.3.4'' []"
  have g: "?g = (Inr example_record, snd ?g)"
    using example_CreateRecord_ok by (cases ?g) simp
  have e: "?e = (Inl ''error while executing the request: unexpected status code: 400: name already exists'', snd ?e)"
    using example_CreateRecord_error by (cases ?e) simp
  from cr[of "example_runtime example_created" "[]"] g
  obtain resp1 where 1:
    "recordResource_Create (example_runtime example_created) example_resource example_plan_request
        empty_StateResponse [] = Inr (resp1, snd ?g)"
    "State resp1 = Some \<lparr>attr_id = StringValue (ID example_record),
                         attr_name = StringValue (Name example_record),
                         attr_target = StringValue (Target example_record)\<rparr>"
    by blast
  from cr[of "example_runtime example_error" "[]"] e
  obtain resp2 where 2:
    "recordResource_Create (example_runtime example_error) example_resource example_plan_request
        empty_StateResponse [] = Inr (resp2, snd ?e)"
    "State resp2 = State (empty_StateResponse :: recordResourceModel StateResponse)"
    "\<lparr>Severity = SeverityError, Summary = ''Unable to create the usg-dns record'',
       Detail = ''error while executing the request: unexpected status code: 400: name already exists'',
       Path = None\<rparr> \<in> set (Diagnostics resp2)"
    by blast
  from 1 have a: "\<exists>resp' sent'.
      recordResource_Create (example_runtime example_created) example_resource example_plan_request
        empty_StateResponse [] = Inr (resp', sent') \<and>
      State resp' = Some \<lparr>attr_id = StringValue ''42'', attr_name = StringValue ''www'',
                          attr_target = StringValue ''1.2.3.4''\<rparr>"
    by (simp add: example_record_def)
  from 2 have b: "\<exists>resp' sent'.
      recordResource_Create (example_runtime example_error) example_resource example_plan_request
        empty_StateResponse [] = Inr (resp', sent') \<and>
      State resp' = None \<and>
      \<lparr>Severity = SeverityError, Summary = ''Unable to create the usg-dns record'',
        Detail = ''error while executing the request: unexpected status code: 400: name already exists'',
        Path = None\<rparr> \<in> set (Diagnostics resp')"
    by (simp add: empty_StateResponse_def)
  from a b show ?thesis by (rule conjI)
qed

text \<open>
  Claim C6, as amended. The data source's \<open>Read\<close>: for every non-empty list of records
  that \<open>GetRecords\<close> returns, the state written holds a list of the same length whose
  i-th element has the \<open>id\<close>, \<open>name\<close> and \<open>target\<close> of the i-th record: the list mapped in
  order, with no element dropped, added, moved or merged. For an empty list the loop
  does not run: \<open>state.Records\<close> stays the nil slice and the \<open>records\<close> attribute is
  written null. In both cases no diagnostic is added.
\<close>

theorem data_source_lists_all:
  assumes "ds_client d = Some c"
    and "GetRecords rt c sent = (Inr records, sent')"
  shows "\<exists>resp' state. recordsDataSource_Read rt d resp sent = Inr (resp', sent') \<and>
           State resp' = Some state \<and>
           Diagnostics resp' = Diagnostics resp \<and>
           (records = [] \<longrightarrow> Records state = None) \<and>
           (records \<noteq> [] \<longrightarrow>
              (\<exists>rs. Records state = Some rs \<and>
                 length rs = length records \<and>
                 (\<forall>i < length records.
                    attr_id (rs ! i) = StringValue (ID (records ! i)) \<and>
                    attr_name (rs ! i) = StringValue (Name (records ! i)) \<and>
                    attr_target (rs ! i) = StringValue (Target (records ! i))) \<and>
                 rs = map (\<lambda>record. \<lparr>attr_id = StringValue (ID record),
                                        attr_name = StringValue (Name record),
                                        attr_target = StringValue (Target record)\<rparr>) records))"
  using assms
  by (simp add: recordsDataSource_Read_def State_Set_def append_records_eq)

theorem data_source_lists_all_witness:
  "(\<exists>resp' sent'.
      recordsDataSource_Read (example_runtime example_three) example_data_source
        empty_StateResponse [] = Inr (resp', sent') \<and>
      State resp' = Some \<lparr>Records = Some
        [\<lparr>attr_id = StringValue ''7'', attr_name = StringValue ''zeta'',
           attr_target = StringValue ''10.0.0.7''\<rparr>,
         \<lparr>attr_id = StringValue ''42'', attr_name = StringValue ''www'',
           attr_target = StringValue ''1.2.3.4''\<rparr>,
         \<lparr>attr_id = StringValue ''7'', attr_name = StringValue ''zeta'',
           attr_target = StringValue ''10.0.0.7''\<rparr>]\<rparr>) \<and>
   (\<exists>resp' sent'.
      recordsDataSource_Read (example_runtime example_empty_list) example_data_source
        empty_StateResponse [] = Inr (resp', sent') \<and>
      State resp' = Some \<lparr>Records = None\<rparr>)"
proof -
  let ?g = "GetRecords (example_runtime example_three) example_client []"
  let ?e = "GetRecords (example_runtime example_empty_list) example_client []"
  have cl: "ds_client example_data_source = Some example_client"
    by (simp add: example_data_source_def)
  have g: "?g = (Inr example_records, snd ?g)"
    using example_GetRecords_three by (cases ?g) simp
  have e: "?e = (Inr [], snd ?e)"
    using example_GetRecords_empty by (cases ?e) simp
  have ne: "example_records \<noteq> []"
    by (simp add: example_records_def)
  from data_source_lists_all[OF cl g, of empty_StateResponse] ne
  obtain resp1 state1 rs where 1:
    "recordsDataSource_Read (example_runtime example_three) example_data_source
       empty_StateResponse [] = Inr (resp1, snd ?g)"
    "State resp1 = Some state1"
    "Records state1 = Some rs"
    "rs = map (\<lambda>record. \<lparr>attr_id = StringValue (ID record),
                           attr_name = StringValue (Name record),
                           attr_target = StringValue (Target record)\<rparr>) example_records"
    by blast
  from data_source_lists_all[OF cl e, of empty_StateResponse]
  obtain resp2 state2 where 2:
    "recordsDataSource_Read (example_runtime example_empty_list) example_data_source
       empty_StateResponse [] = Inr (resp2, snd ?e)"
    "State resp2 = Some state2"
    "Records state2 = None"
    by blast
  from 1 have a: "\<exists>resp' sent'.
      recordsDataSource_Read (example_runtime example_three) example_data_source
        empty_StateResponse [] = Inr (resp', sent') \<and>
      State resp' = Some \<lparr>Records = Some
        [\<lparr>attr_id = StringValue ''7'', attr_name = StringValue ''zeta'',
           attr_target = StringValue ''10.0.0.7''\<rparr>,
         \<lparr>attr_id = StringValue ''42'', attr_name = StringValue ''www'',
           attr_target = StringValue ''1.2.3.4''\<rparr>,
         \<lparr>attr_id = StringValue ''7'', attr_name = StringValue ''zeta'',
           attr_target = StringValue ''10.0.0.7''\<rparr>]\<rparr>"
    by (cases state1) (simp add: example_records_def)
  from 2 have b: "\<exists>resp' sent'.
      recordsDataSource_Read (example_runtime example_empty_list) example_data_source
        empty_StateResponse [] = Inr (resp', sent') \<and>
      State resp' = Some \<lparr>Records = None\<rparr>"
    by (cases state2) simp
  from a b show ?thesis by (rule conjI)
qed

text \<open>
  The claim as first stated, for every list, fails at the empty list: the state written
  does not hold a list of length zero, its \<open>records\<close> attribute is null.
\<close>

theorem data_source_lists_all_counterexample:
  "fst (GetRecords (example_runtime example_empty_list) example_client []) = Inr [] \<and>
   map_sum id (State \<circ> fst)
     (recordsDataSource_Read (example_runtime example_empty_list) example_data_source
        empty_StateResponse [])
     = Inr (Some \<lparr>Records = None\<rparr>) \<and>
   map_sum id (State \<circ> fst)
     (recordsDataSource_Read (example_runtime example_empty_list) example_data_source
        empty_StateResponse [])
     \<noteq> Inr (Some \<lparr>Records = Some []\<rparr>)"
  by (simp add: data_source_empty_run example_GetRecords_empty)

text \<open>
  Claim C7. \<open>NewClient\<close> stores the URL with one trailing slash stripped, and each of the
  five operations issues at most one request, with the operation's method, to the URL
  that \<open>url.Parse\<close> and \<open>URL.String\<close> make of the stored base followed by the endpoint
  path (\<open>/records\<close> or \<open>/records/{id}\<close>); when that URL parses, the body marshals and
  \<open>http.NewRequest\<close> accepts it, exactly one request is issued, to that URL.
\<close>

theorem request_target:
  "\<exists>c. NewClient u t = Inr c \<and> url c = (if suffix ''/'' u then butlast u else u) \<and>
     (\<forall>q \<in> set (issued sent (snd (GetRecords rt c sent))).
        Method q = ''GET'' \<and> url_Parse rt (url c @ ''/records'') = Inr (URL q)) \<and>
     (\<forall>q \<in> set (issued sent (snd (CreateRecord rt c name target sent))).
        Method q = ''POST'' \<and> url_Parse rt (url c @ ''/records'') = Inr (URL q)) \<and>
     (\<forall>q \<in> set (issued sent (snd (GetRecord rt c i sent))).
        Method q = ''GET'' \<and> url_Parse rt (url c @ ''/records/'' @ i) = Inr (URL q)) \<and>
     (\<forall>q \<in> set (issued sent (snd (UpdateRecord rt c i name target sent))).
        Method q = ''PUT'' \<and> url_Parse rt (url c @ ''/records/'' @ i) = Inr (URL q)) \<and>
     (\<forall>q \<in> set (issued sent (snd (DeleteRecord rt c i sent))).
        Method q = ''DELETE'' \<and> url_Parse rt (url c @ ''/records/'' @ i) = Inr (URL q)) \<and>
     (\<forall>v. url_Parse rt (url c @ ''/records'') = Inr v \<and> NewRequest_error rt ''GET'' v = None \<longrightarrow>
        map URL (issued sent (snd (GetRecords rt c sent))) = [v]) \<and>
     (\<forall>v y. url_Parse rt (url c @ ''/records'') = Inr v \<and> NewRequest_error rt ''POST'' v = None \<and>
        json_Marshal rt \<lparr>ID = '''', Name = name, Target = target\<rparr> = Inr y \<longrightarrow>
        map URL (issued sent (snd (CreateRecord rt c name target sent))) = [v]) \<and>
     (\<forall>v. url_Parse rt (url c @ ''/records/'' @ i) = Inr v \<and> NewRequest_error rt ''GET'' v = None \<longrightarrow>
        map URL (issued sent (snd (GetRecord rt c i sent))) = [v]) \<and>
     (\<forall>v y. url_Parse rt (url c @ ''/records/'' @ i) = Inr v \<and> NewRequest_error rt ''PUT'' v = None \<and>
        json_Marshal rt \<lparr>ID = '''', Name = name, Target = target\<rparr> = Inr y \<longrightarrow>
        map URL (issued sent (snd (UpdateRecord rt c i name target sent))) = [v]) \<and>
     (\<forall>v. url_Parse rt (url c @ ''/records/'' @ i) = Inr v \<and> NewRequest_error rt ''DELETE'' v = None \<longrightarrow>
        map URL (issued sent (snd (DeleteRecord rt c i sent))) = [v])"
proof -
  define c where "c = \<lparr>url = TrimSuffix u ''/'', token = t\<rparr>"
  have n: "NewClient u t = Inr c" by (simp add: NewClient_def c_def)
  have u: "url c = (if suffix ''/'' u then butlast u else u)"
    by (simp add: c_def TrimSuffix_slash)
  have a1: "\<forall>q \<in> set (issued sent (snd (GetRecords rt c sent))).
        Method q = ''GET'' \<and> url_Parse rt (url c @ ''/records'') = Inr (URL q)"
    using do_issued[of sent rt c MethodGet "''/records''" None]
    by (simp add: GetRecords_sent MethodGet_def)
  have a2: "\<forall>q \<in> set (issued sent (snd (CreateRecord rt c name target sent))).
        Method q = ''POST'' \<and> url_Parse rt (url c @ ''/records'') = Inr (URL q)"
    using do_issued[of sent rt c MethodPost "''/records''" "Some \<lparr>ID = '''', Name = name, Target = target\<rparr>"]
    by (simp add: CreateRecord_sent MethodPost_def)
  have a3: "\<forall>q \<in> set (issued sent (snd (GetRecord rt c i sent))).
        Method q = ''GET'' \<and> url_Parse rt (url c @ ''/records/'' @ i) = Inr (URL q)"
    using do_issued[of sent rt c MethodGet "''/records/'' @ i" None]
    by (simp add: GetRecord_sent MethodGet_def)
  have a4: "\<forall>q \<in> set (issued sent (snd (UpdateRecord rt c i name target sent))).
        Method q = ''PUT'' \<and> url_Parse rt (url c @ ''/records/'' @ i) = Inr (URL q)"
    using do_issued[of sent rt c MethodPut "''/records/'' @ i" "Some \<lparr>ID = '''', Name = name, Target = target\<rparr>"]
    by (simp add: UpdateRecord_sent MethodPut_def)
  have a5: "\<forall>q \<in> set (issued sent (snd (DeleteRecord rt c i sent))).
        Method q = ''DELETE'' \<and> url_Parse rt (url c @ ''/records/'' @ i) = Inr (URL q)"
    using do_issued[of sent rt c MethodDelete "''/records/'' @ i" None]
    by (simp add: DeleteRecord_sent MethodDelete_def)
  have b1: "\<forall>v. url_Parse rt (url c @ ''/records'') = Inr v \<and> NewRequest_error rt ''GET'' v = None \<longrightarrow>
        map URL (issued sent (snd (GetRecords rt c sent))) = [v]"
    using do_issues_one[where rt=rt and c=c and uri="''/records''" and m=MethodGet and b=None and bytes=None and sent=sent]
    by (simp add: GetRecords_sent MethodGet_def)
  have b2: "\<forall>v y. url_Parse rt (url c @ ''/records'') = Inr v \<and> NewRequest_error rt ''POST'' v = None \<and>
        json_Marshal rt \<lparr>ID = '''', Name = name, Target = target\<rparr> = Inr y \<longrightarrow>
        map URL (issued sent (snd (CreateRecord rt c name target sent))) = [v]"
    using do_issues_one[where rt=rt and c=c and uri="''/records''" and m=MethodPost and b="Some \<lparr>ID = '''', Name = name, Target = target\<rparr>" and sent=sent]
    by (simp add: CreateRecord_sent MethodPost_def)
  have b3: "\<forall>v. url_Parse rt (url c @ ''/records/'' @ i) = Inr v \<and> NewRequest_error rt ''GET'' v = None \<longrightarrow>
        map URL (issued sent (snd (GetRecord rt c i sent))) = [v]"
    using do_issues_one[where rt=rt and c=c and uri="''/records/'' @ i" and m=MethodGet and b=None and bytes=None and sent=sent]
    by (simp add: GetRecord_sent MethodGet_def)
  have b4: "\<forall>v y. url_Parse rt (url c @ ''/records/'' @ i) = Inr v \<and> NewRequest_error rt ''PUT'' v = None \<and>
        json_Marshal rt \<lparr>ID = '''', Name = name, Target = target\<rparr> = Inr y \<longrightarrow>
        map URL (issued sent (snd (UpdateRecord rt c i name target sent))) = [v]"
    using do_issues_one[where rt=rt and c=c and uri="''/records/'' @ i" and m=MethodPut and b="Some \<lparr>ID = '''', Name = name, Target = target\<rparr>" and sent=sent]
    by (simp add: UpdateRecord_sent MethodPut_def)
  have b5: "\<forall>v. url_Parse rt (url c @ ''/records/'' @ i) = Inr v \<and> NewRequest_error rt ''DELETE'' v = None \<longrightarrow>
        map URL (issued sent (snd (DeleteRecord rt c i sent))) = [v]"
    using do_issues_one[where rt=rt and c=c and uri="''/records/'' @ i" and m=MethodDelete and b=None and bytes=None and sent=sent]
    by (simp add: DeleteRecord_sent MethodDelete_def)
  from n u a1 a2 a3 a4 a5 b1 b2 b3 b4 b5 show ?thesis by blast
qed

theorem request_target_witness:
  "NewClient ''https://dns.example.com/'' ''secret'' = Inr example_client \<and>
   url_Parse (example_runtime example_created) (url example_client @ ''/records'')
     = Inr ''https://dns.example.com/records'' \<and>
   map URL (issued [] (snd (CreateRecord (example_runtime example_created) example_client
                              ''www'' ''1.2.3.4'' [])))
     = [''https://dns.example.com/records''] \<and>
   map Method (issued [] (snd (CreateRecord (example_runtime example_created) example_client
                                 ''www'' ''1.2.3.4'' [])))
     = [''POST'']"
proof -
  let ?rt = "example_runtime example_created"
  let ?new = "issued [] (snd (CreateRecord ?rt example_client ''www'' ''1.2.3.4'' []))"
  from request_target[of "''https://dns.example.com/''" "''secret''" "[]" ?rt "''www''" "''1.2.3.4''" "''''"]
  obtain c where c: "NewClient ''https://dns.example.com/'' ''secret'' = Inr c"
    and a: "\<forall>q \<in> set (issued [] (snd (CreateRecord ?rt c ''www'' ''1.2.3.4'' []))).
        Method q = ''POST'' \<and> url_Parse ?rt (url c @ ''/records'') = Inr (URL q)"
    and b: "\<forall>v y. url_Parse ?rt (url c @ ''/records'') = Inr v \<and> NewRequest_error ?rt ''POST'' v = None \<and>
        json_Marshal ?rt \<lparr>ID = '''', Name = ''www'', Target = ''1.2.3.4''\<rparr> = Inr y \<longrightarrow>
        map URL (issued [] (snd (CreateRecord ?rt c ''www'' ''1.2.3.4'' []))) = [v]"
    by (elim exE conjE) (rule that)
  from c have ce: "c = example_client" by (simp add: NewClient_example)
  have p: "url_Parse ?rt (url example_client @ ''/records'') = Inr ''https://dns.example.com/records''"
    by (simp add: example_runtime_def example_client_def)
  have n: "NewRequest_error ?rt ''POST'' ''https://dns.example.com/records'' = None"
    by (simp add: example_runtime_def)
  have j: "\<exists>y. json_Marshal ?rt \<lparr>ID = '''', Name = ''www'', Target = ''1.2.3.4''\<rparr> = Inr y"
    by (simp add: example_runtime_def)
  from b p n j have urls: "map URL ?new = [''https://dns.example.com/records'']"
    unfolding ce by blast
  then obtain q where q: "?new = [q]" by auto
  with a have "Method q = ''POST''" unfolding ce by simp
  with q have "map Method ?new = [''POST'']" by simp
  with NewClient_example p urls show ?thesis by simp
qed

text \<open>
  Claim C8. The token of the client that \<open>NewClient\<close> makes is the configured token.
  Every request that one of the five operations (list, get, create, update, delete)
  issues carries the header \<open>Authorization\<close> with that token as its only value, exactly
  as configured: no \<open>Bearer\<close> or other prefix is added. And the request is issued: when
  the URL parses, the body (of create and update) marshals and \<open>http.NewRequest\<close>
  accepts the request, each operation issues exactly one request, with that header.
\<close>

theorem authorization_header:
  "(NewClient u t = Inr c \<longrightarrow> token c = t) \<and>
   (\<forall>q \<in> set (issued sent (snd (GetRecords rt c sent))).
      Header q ''Authorization'' = Some [token c]) \<and>
   (\<forall>q \<in> set (issued sent (snd (GetRecord rt c i sent))).
      Header q ''Authorization'' = Some [token c]) \<and>
   (\<forall>q \<in> set (issued sent (snd (CreateRecord rt c name target sent))).
      Header q ''Authorization'' = Some [token c]) \<and>
   (\<forall>q \<in> set (issued sent (snd (UpdateRecord rt c i name target sent))).
      Header q ''Authorization'' = Some [token c]) \<and>
   (\<forall>q \<in> set (issued sent (snd (DeleteRecord rt c i sent))).
      Header q ''Authorization'' = Some [token c]) \<and>
   (\<forall>v. url_Parse rt (url c @ ''/records'') = Inr v \<and> NewRequest_error rt ''GET'' v = None \<longrightarrow>
      map (\<lambda>q. Header q ''Authorization'') (issued sent (snd (GetRecords rt c sent)))
        = [Some [token c]]) \<and>
   (\<forall>v. url_Parse rt (url c @ ''/records/'' @ i) = Inr v \<and> NewRequest_error rt ''GET'' v = None \<longrightarrow>
      map (\<lambda>q. Header q ''Authorization'') (issued sent (snd (GetRecord rt c i sent)))
        = [Some [token c]]) \<and>
   (\<forall>v y. url_Parse rt (url c @ ''/records'') = Inr v \<and> NewRequest_error rt ''POST'' v = None \<and>
      json_Marshal rt \<lparr>ID = '''', Name = name, Target = target\<rparr> = Inr y \<longrightarrow>
      map (\<lambda>q. Header q ''Authorization'') (issued sent (snd (CreateRecord rt c name target sent)))
        = [Some [token c]]) \<and>
   (\<forall>v y. url_Parse rt (url c @ ''/records/'' @ i) = Inr v \<and> NewRequest_error rt ''PUT'' v = None \<and>
      json_Marshal rt \<lparr>ID = '''', Name = name, Target = target\<rparr> = Inr y \<longrightarrow>
      map (\<lambda>q. Header q ''Authorization'') (issued sent (snd (UpdateRecord rt c i name target sent)))
        = [Some [token c]]) \<and>
   (\<forall>v. url_Parse rt (url c @ ''/records/'' @ i) = Inr v \<and> NewRequest_error rt ''DELETE'' v = None \<longrightarrow>
      map (\<lambda>q. Header q ''Authorization'') (issued sent (snd (DeleteRecord rt c i sent)))
        = [Some [token c]])"
proof -
  have n: "NewClient u t = Inr c \<longrightarrow> token c = t"
    by (auto simp: NewClient_def)
  have a: "(\<forall>q \<in> set (issued sent (snd (GetRecords rt c sent))).
      Header q ''Authorization'' = Some [token c]) \<and>
   (\<forall>q \<in> set (issued sent (snd (GetRecord rt c i sent))).
      Header q ''Authorization'' = Some [token c]) \<and>
   (\<forall>q \<in> set (issued sent (snd (CreateRecord rt c name target sent))).
      Header q ''Authorization'' = Some [token c]) \<and>
   (\<forall>q \<in> set (issued sent (snd (UpdateRecord rt c i name target sent))).
      Header q ''Authorization'' = Some [token c]) \<and>
   (\<forall>q \<in> set (issued sent (snd (DeleteRecord rt c i sent))).
      Header q ''Authorization'' = Some [token c])"
    using do_issued[of sent rt c MethodGet "''/records''" None]
      do_issued[of sent rt c MethodGet "''/records/'' @ i" None]
      do_issued[of sent rt c MethodPost "''/records''" "Some \<lparr>ID = '''', Name = name, Target = target\<rparr>"]
      do_issued[of sent rt c MethodPut "''/records/'' @ i" "Some \<lparr>ID = '''', Name = name, Target = target\<rparr>"]
      do_issued[of sent rt c MethodDelete "''/records/'' @ i" None]
    by (simp add: GetRecords_sent GetRecord_sent CreateRecord_sent UpdateRecord_sent DeleteRecord_sent)
  have b1: "\<forall>v. url_Parse rt (url c @ ''/records'') = Inr v \<and> NewRequest_error rt ''GET'' v = None \<longrightarrow>
      map (\<lambda>q. Header q ''Authorization'') (issued sent (snd (GetRecords rt c sent)))
        = [Some [token c]]"
    using do_issues_header[where rt=rt and c=c and uri="''/records''" and m=MethodGet and b=None and sent=sent]
    by (simp add: GetRecords_sent MethodGet_def)
  have b2: "\<forall>v. url_Parse rt (url c @ ''/records/'' @ i) = Inr v \<and> NewRequest_error rt ''GET'' v = None \<longrightarrow>
      map (\<lambda>q. Header q ''Authorization'') (issued sent (snd (GetRecord rt c i sent)))
        = [Some [token c]]"
    using do_issues_header[where rt=rt and c=c and uri="''/records/'' @ i" and m=MethodGet and b=None and sent=sent]
    by (simp add: GetRecord_sent MethodGet_def)
  have b3: "\<forall>v y. url_Parse rt (url c @ ''/records'') = Inr v \<and> NewRequest_error rt ''POST'' v = None \<and>
      json_Marshal rt \<lparr>ID = '''', Name = name, Target = target\<rparr> = Inr y \<longrightarrow>
      map (\<lambda>q. Header q ''Authorization'') (issued sent (snd (CreateRecord rt c name target sent)))
        = [Some [token c]]"
    using do_issues_header[where rt=rt and c=c and uri="''/records''" and m=MethodPost
        and b="Some \<lparr>ID = '''', Name = name, Target = target\<rparr>" and sent=sent]
    by (simp add: CreateRecord_sent MethodPost_def)
  have b4: "\<forall>v y. url_Parse rt (url c @ ''/records/'' @ i) = Inr v \<and> NewRequest_error rt ''PUT'' v = None \<and>
      json_Marshal rt \<lparr>ID = '''', Name = name, Target = target\<rparr> = Inr y \<longrightarrow>
      map (\<lambda>q. Header q ''Authorization'') (issued sent (snd (UpdateRecord rt c i name target sent)))
        = [Some [token c]]"
    using do_issues_header[where rt=rt and c=c and uri="''/records/'' @ i" and m=MethodPut
        and b="Some \<lparr>ID = '''', Name = name, Target = target\<rparr>" and sent=sent]
    by (simp add: UpdateRecord_sent MethodPut_def)
  have b5: "\<forall>v. url_Parse rt (url c @ ''/records/'' @ i) = Inr v \<and> NewRequest_error rt ''DELETE'' v = None \<longrightarrow>
      map (\<lambda>q. Header q ''Authorization'') (issued sent (snd (DeleteRecord rt c i sent)))
        = [Some [token c]]"
    using do_issues_header[where rt=rt and c=c and uri="''/records/'' @ i" and m=MethodDelete and b=None and sent=sent]
    by (simp add: DeleteRecord_sent MethodDelete_def)
  from n a b1 b2 b3 b4 b5 show ?thesis by (intro conjI) (elim conjE, assumption)+
qed


theorem authorization_header_witness:
  "NewClient ''https://dns.example.com/'' ''secret'' = Inr example_client \<and>
   token example_client = ''secret'' \<and>
   map (\<lambda>q. Header q ''Authorization'')
     (issued [] (snd (GetRecords (example_runtime example_list) example_client [])))
     = [Some [''secret'']] \<and>
   map (\<lambda>q. Header q ''Authorization'')
     (issued [] (snd (GetRecord (example_runtime example_list) example_client ''42'' [])))
     = [Some [''secret'']] \<and>
   map (\<lambda>q. Header q ''Authorization'')
     (issued [] (snd (CreateRecord (example_runtime example_list) example_client
                        ''www'' ''1.2.3.4'' [])))
     = [Some [''secret'']] \<and>
   map (\<lambda>q. Header q ''Authorization'')
     (issued [] (snd (UpdateRecord (example_runtime example_list) example_client ''42''
                        ''www'' ''1.2.3.4'' [])))
     = [Some [''secret'']] \<and>
   map (\<lambda>q. Header q ''Authorization'')
     (issued [] (snd (DeleteRecord (example_runtime example_list) example_client ''42'' [])))
     = [Some [''secret'']]"
proof -
  let ?rt = "example_runtime example_list"
  let ?c = example_client
  note ah = authorization_header[where u = "''https://dns.example.com/''" and t = "''secret''"
      and c = ?c and sent = "[]" and rt = ?rt and i = "''42''" and name = "''www''"
      and target = "''1.2.3.4''"]
  from ah have n: "NewClient ''https://dns.example.com/'' ''secret'' = Inr ?c \<longrightarrow> token ?c = ''secret''"
    by (elim conjE)
  from ah have b1: "\<forall>v. url_Parse ?rt (url ?c @ ''/records'') = Inr v \<and> NewRequest_error ?rt ''GET'' v = None \<longrightarrow>
      map (\<lambda>q. Header q ''Authorization'') (issued [] (snd (GetRecords ?rt ?c [])))
        = [Some [token ?c]]"
    by (elim conjE)
  from ah have b2: "\<forall>v. url_Parse ?rt (url ?c @ ''/records/'' @ ''42'') = Inr v \<and> NewRequest_error ?rt ''GET'' v = None \<longrightarrow>
      map (\<lambda>q. Header q ''Authorization'') (issued [] (snd (GetRecord ?rt ?c ''42'' [])))
        = [Some [token ?c]]"
    by (elim conjE)
  from ah have b3: "\<forall>v y. url_Parse ?rt (url ?c @ ''/records'') = Inr v \<and> NewRequest_error ?rt ''POST'' v = None \<and>
      json_Marshal ?rt \<lparr>ID = '''', Name = ''www'', Target = ''1.2.3.4''\<rparr> = Inr y \<longrightarrow>
      map (\<lambda>q. Header q ''Authorization'') (issued [] (snd (CreateRecord ?rt ?c ''www'' ''1.2.3.4'' [])))
        = [Some [token ?c]]"
    by (elim conjE)
  from ah have b4: "\<forall>v y. url_Parse ?rt (url ?c @ ''/records/'' @ ''42'') = Inr v \<and> NewRequest_error ?rt ''PUT'' v = None \<and>
      json_Marshal ?rt \<lparr>ID = '''', Name = ''www'', Target = ''1.2.3.4''\<rparr> = Inr y \<longrightarrow>
      map (\<lambda>q. Header q ''Authorization'') (issued [] (snd (UpdateRecord ?rt ?c ''42'' ''www'' ''1.2.3.4'' [])))
        = [Some [token ?c]]"
    by (elim conjE)
  from ah have b5: "\<forall>v. url_Parse ?rt (url ?c @ ''/records/'' @ ''42'') = Inr v \<and> NewRequest_error ?rt ''DELETE'' v = None \<longrightarrow>
      map (\<lambda>q. Header q ''Authorization'') (issued [] (snd (DeleteRecord ?rt ?c ''42'' [])))
        = [Some [token ?c]]"
    by (elim conjE)
  have p: "\<And>uri. url_Parse ?rt (url ?c @ uri) = Inr (url ?c @ uri)"
    and r: "\<And>m v. NewRequest_error ?rt m v = None"
    and j: "\<exists>y. json_Marshal ?rt \<lparr>ID = '''', Name = ''www'', Target = ''1.2.3.4''\<rparr> = Inr y"
    by (simp_all add: example_runtime_def)
  have tk: "token ?c = ''secret''"
    using n NewClient_example by simp
  from b1 p r have 1: "map (\<lambda>q. Header q ''Authorization'') (issued [] (snd (GetRecords ?rt ?c [])))
        = [Some [token ?c]]" by blast
  from b2 p r have 2: "map (\<lambda>q. Header q ''Authorization'') (issued [] (snd (GetRecord ?rt ?c ''42'' [])))
        = [Some [token ?c]]" by blast
  from b3 p r j have 3: "map (\<lambda>q. Header q ''Authorization'')
        (issued [] (snd (CreateRecord ?rt ?c ''www'' ''1.2.3.4'' []))) = [Some [token ?c]]" by blast
  from b4 p r j have 4: "map (\<lambda>q. Header q ''Authorization'')
        (issued [] (snd (UpdateRecord ?rt ?c ''42'' ''www'' ''1.2.3.4'' []))) = [Some [token ?c]]" by blast
  from b5 p r have 5: "map (\<lambda>q. Header q ''Authorization'') (issued [] (snd (DeleteRecord ?rt ?c ''42'' [])))
        = [Some [token ?c]]" by blast
  from NewClient_example tk 1 2 3 4 5 show ?thesis by simp
qed

text \<open>
  Claim C9. \<open>DeleteRecord\<close> issues its request with the method \<open>DELETE\<close> to
  \<open>/records/{id}\<close> under the base URL. It returns no error exactly when the request was
  answered with the status 204; answered with any other status, it returns the error
  \<open>error while executing the request: unexpected status code: <status>\<close>. The body of the
  response is never decoded: the result mentions no body, and replacing the three JSON
  decoders changes nothing.
\<close>

theorem DeleteRecord_status:
  "(\<forall>q \<in> set (issued sent (snd (DeleteRecord rt c i sent))).
      Method q = ''DELETE'' \<and> url_Parse rt (url c @ ''/records/'' @ i) = Inr (URL q)) \<and>
   (fst (DeleteRecord rt c i sent) = None \<longleftrightarrow>
      (\<exists>res. fst (do rt c ''DELETE'' (''/records/'' @ i) None sent) = Inr res \<and> StatusCode res = 204)) \<and>
   (\<forall>res. fst (do rt c ''DELETE'' (''/records/'' @ i) None sent) = Inr res \<and> StatusCode res \<noteq> 204 \<longrightarrow>
      fst (DeleteRecord rt c i sent) =
        Some (''error while executing the request: unexpected status code: '' @ Sprintf_d (StatusCode res)) \<and>
      sublist (''unexpected status code: '' @ Sprintf_d (StatusCode res))
        (the (fst (DeleteRecord rt c i sent)))) \<and>
   DeleteRecord (rt\<lparr>Unmarshal_Record := f, Unmarshal_Records := g, Unmarshal_Message := h\<rparr>) c i sent
     = DeleteRecord rt c i sent"
proof -
  have a: "\<forall>q \<in> set (issued sent (snd (DeleteRecord rt c i sent))).
      Method q = ''DELETE'' \<and> url_Parse rt (url c @ ''/records/'' @ i) = Inr (URL q)"
    using do_issued[of sent rt c MethodDelete "''/records/'' @ i" None]
    by (simp add: DeleteRecord_sent MethodDelete_def)
  have b: "fst (DeleteRecord rt c i sent) = None \<longleftrightarrow>
      (\<exists>res. fst (do rt c ''DELETE'' (''/records/'' @ i) None sent) = Inr res \<and> StatusCode res = 204)"
    by (auto simp: DeleteRecord_result MethodDelete_def StatusNoContent_def split: sum.splits)
  have c: "\<forall>res. fst (do rt c ''DELETE'' (''/records/'' @ i) None sent) = Inr res \<and> StatusCode res \<noteq> 204 \<longrightarrow>
      fst (DeleteRecord rt c i sent) =
        Some (''error while executing the request: unexpected status code: '' @ Sprintf_d (StatusCode res)) \<and>
      sublist (''unexpected status code: '' @ Sprintf_d (StatusCode res))
        (the (fst (DeleteRecord rt c i sent)))"
  proof (intro allI impI)
    fix res
    assume h: "fst (do rt c ''DELETE'' (''/records/'' @ i) None sent) = Inr res \<and> StatusCode res \<noteq> 204"
    then have e: "fst (DeleteRecord rt c i sent) =
        Some (''error while executing the request: '' @ (''unexpected status code: '' @ Sprintf_d (StatusCode res)) @ [])"
      by (simp add: DeleteRecord_result MethodDelete_def StatusNoContent_def)
    have "sublist (''unexpected status code: '' @ Sprintf_d (StatusCode res))
            (''error while executing the request: '' @ (''unexpected status code: '' @ Sprintf_d (StatusCode res)) @ [])"
      by (rule sublist_appendI)
    with e show "fst (DeleteRecord rt c i sent) =
        Some (''error while executing the request: unexpected status code: '' @ Sprintf_d (StatusCode res)) \<and>
      sublist (''unexpected status code: '' @ Sprintf_d (StatusCode res))
        (the (fst (DeleteRecord rt c i sent)))"
      by simp
  qed
  have d: "DeleteRecord (rt\<lparr>Unmarshal_Record := f, Unmarshal_Records := g, Unmarshal_Message := h\<rparr>) c i sent
     = DeleteRecord rt c i sent"
    by (simp add: DeleteRecord_def do_decoders)
  from a b c d show ?thesis by (intro conjI)
qed

theorem DeleteRecord_status_witness:
  "fst (DeleteRecord (example_runtime example_no_content) example_client ''42'' []) = None \<and>
   fst (DeleteRecord (example_runtime example_error) example_client ''42'' [])
     = Some ''error while executing the request: unexpected status code: 400'' \<and>
   map Method (issued [] (snd (DeleteRecord (example_runtime example_error) example_client ''42'' [])))
     = [''DELETE'']"
proof -
  note ok = DeleteRecord_status[of "[]" "example_runtime example_no_content" example_client "''42''"]
  note ko = DeleteRecord_status[of "[]" "example_runtime example_error" example_client "''42''"]
  have "StatusCode example_no_content = 204" by (simp add: example_no_content_def)
  with ok example_do_delete[of example_no_content]
  have 1: "fst (DeleteRecord (example_runtime example_no_content) example_client ''42'' []) = None"
    by blast
  have "StatusCode example_error \<noteq> 204" by (simp add: example_error_def)
  with ko example_do_delete[of example_error]
  have "fst (DeleteRecord (example_runtime example_error) example_client ''42'' [])
     = Some (''error while executing the request: unexpected status code: '' @ Sprintf_d (StatusCode example_error))"
    by blast
  then have 2: "fst (DeleteRecord (example_runtime example_error) example_client ''42'' [])
     = Some ''error while executing the request: unexpected status code: 400''"
    by (simp add: example_error_def Sprintf_d_400)
  let ?new = "issued [] (snd (DeleteRecord (example_runtime example_error) example_client ''42'' []))"
  have "length ?new = 1"
    by (simp add: DeleteRecord_sent example_issued)
  then obtain q where q: "?new = [q]"
    by (cases ?new) auto
  then have "q \<in> set ?new" by simp
  with ko have "Method q = ''DELETE''" by blast
  with q have 3: "map Method ?new = [''DELETE'']" by simp
  from 1 2 3 show ?thesis by (intro conjI)
qed

text \<open>
  Claim C10. \<open>NewClient\<close> returns a client and no error for every URL and token. So the
  branch of \<open>Configure\<close> that reports \<open>Unable to Create usg-dns API Client\<close> is never
  taken: the diagnostics of that summary after \<open>Configure\<close> are those that were there
  before it validated anything (in the response, or returned by decoding the
  configuration).
\<close>

theorem NewClient_never_fails:
  "(\<exists>c. NewClient u t = Inr c) \<and>
   filter (\<lambda>d. Summary d = ''Unable to Create usg-dns API Client'')
     (Diagnostics (usgDnsProvider_Configure getenv req resp))
   = filter (\<lambda>d. Summary d = ''Unable to Create usg-dns API Client'')
       (Append (Diagnostics resp) (Get_diags req))"
proof -
  let ?F = "filter (\<lambda>d. Summary d = ''Unable to Create usg-dns API Client'')"
  define cfg where "cfg = Get_value req"
  define r1 where "r1 = resp\<lparr>Diagnostics := Append (Diagnostics resp) (Get_diags req)\<rparr>"
  define r2 where "r2 = (if IsUnknown (cfg_URL cfg)
               then r1\<lparr>Diagnostics := AddAttributeError (Diagnostics r1) ''url''
                          ''Unknown usg-dns API URL'' detail_unknown_url\<rparr> else r1)"
  define r3 where "r3 = (if IsUnknown (cfg_Token cfg)
               then r2\<lparr>Diagnostics := AddAttributeError (Diagnostics r2) ''token''
                          ''Unknown usg-dns API token'' detail_unknown_token\<rparr> else r2)"
  define u' where "u' = (if \<not> IsNull (cfg_URL cfg) then ValueString (cfg_URL cfg) else getenv envCfgUrl)"
  define t' where "t' = (if \<not> IsNull (cfg_Token cfg) then ValueString (cfg_Token cfg) else getenv envCfgToken)"
  define r4 where "r4 = (if u' = ''''
               then r3\<lparr>Diagnostics := AddAttributeError (Diagnostics r3) ''url''
                          ''Missing usg-dns API URL'' detail_missing_url\<rparr> else r3)"
  define r5 where "r5 = (if t' = ''''
               then r4\<lparr>Diagnostics := AddAttributeError (Diagnostics r4) ''token''
                          ''Missing usg-dns API token'' detail_missing_token\<rparr> else r4)"
  note steps = Configure_steps[OF cfg_def r1_def r2_def r3_def u'_def t'_def r4_def r5_def]
  have 1: "?F (Diagnostics r1) = ?F (Append (Diagnostics resp) (Get_diags req))"
    by (simp add: r1_def)
  have 2: "?F (Diagnostics r2) = ?F (Diagnostics r1)"
    by (simp add: r2_def filter_AddAttributeError)
  have 3: "?F (Diagnostics r3) = ?F (Diagnostics r2)"
    by (simp add: r3_def filter_AddAttributeError)
  have 4: "?F (Diagnostics r4) = ?F (Diagnostics r3)"
    by (simp add: r4_def filter_AddAttributeError)
  have 5: "?F (Diagnostics r5) = ?F (Diagnostics r4)"
    by (simp add: r5_def filter_AddAttributeError)
  have "?F (Diagnostics (usgDnsProvider_Configure getenv req resp))
          = ?F (Append (Diagnostics resp) (Get_diags req))"
    unfolding steps using 1 2 3 4 5 by simp
  moreover have "\<exists>c. NewClient u t = Inr c"
    by (simp add: NewClient_def)
  ultimately show ?thesis by (intro conjI)
qed

theorem NewClient_never_fails_witness:
  "NewClient ''https://dns.example.com/'' ''secret'' = Inr example_client \<and>
   filter (\<lambda>d. Summary d = ''Unable to Create usg-dns API Client'')
     (Diagnostics (usgDnsProvider_Configure env_unset
        \<lparr>Get_diags = [],
         Get_value = \<lparr>cfg_URL = StringValue ''https://dns.example.com/'',
                      cfg_Token = StringValue ''secret''\<rparr>\<rparr>
        empty_ConfigureResponse)) = []"
  using NewClient_never_fails[of "''https://dns.example.com/''" "''secret''" env_unset
      "\<lparr>Get_diags = [],
         Get_value = \<lparr>cfg_URL = StringValue ''https://dns.example.com/'',
                      cfg_Token = StringValue ''secret''\<rparr>\<rparr>" empty_ConfigureResponse]
  by (simp add: NewClient_example empty_ConfigureResponse_def)

end
